theory Spec2Isabelle
  imports
    Main
    "HOL-Library.Sublist"
    "HOL-Library.FSet"
    "HOL-Library.Char_ord"
    "HOL-Library.List_Lexorder"
begin

section \<open>Python strings\<close>

text \<open>
  Both programs work on Python \<open>str\<close> values. They are modelled as \<open>string\<close>
  (lists of characters) holding ASCII text: the recogniser's transcripts, the command
  words and the messages of the two programs are ASCII. The character classes below are
  Python's \<open>str.isspace\<close>, \<open>str.isalnum\<close>, \<open>str.lower\<close> and \<open>str.upper\<close>
  on that range. The box-drawing characters that the shell prints around its banner are
  written with \<open>+\<close>, \<open>-\<close>, \<open>=\<close> and \<open>|\<close>; nothing reads them back.
\<close>

definition LF :: char where
  "LF = CHR 0x0A"

definition CR :: char where
  "CR = CHR 0x0D"

definition is_space :: "char \<Rightarrow> bool" where
  "is_space c \<longleftrightarrow>
     c \<in> set [CHR 0x09, CHR 0x0A, CHR 0x0B, CHR 0x0C, CHR 0x0D,
                CHR 0x1C, CHR 0x1D, CHR 0x1E, CHR 0x1F, CHR 0x20]"

definition is_linebreak :: "char \<Rightarrow> bool" where
  "is_linebreak c \<longleftrightarrow>
     c \<in> set [CHR 0x0A, CHR 0x0B, CHR 0x0C, CHR 0x0D, CHR 0x1C, CHR 0x1D, CHR 0x1E]"

definition upper_letters :: string where
  "upper_letters = ''ABCDEFGHIJKLMNOPQRSTUVWXYZ''"

definition lower_letters :: string where
  "lower_letters = ''abcdefghijklmnopqrstuvwxyz''"

definition digit_chars :: string where
  "digit_chars = ''0123456789''"

definition is_alnum :: "char \<Rightarrow> bool" where
  "is_alnum c \<longleftrightarrow> c \<in> set (digit_chars @ upper_letters @ lower_letters)"

definition lower_char :: "char \<Rightarrow> char" where
  "lower_char c = (case map_of (zip upper_letters lower_letters) c of Some d \<Rightarrow> d | None \<Rightarrow> c)"

definition upper_char :: "char \<Rightarrow> char" where
  "upper_char c = (case map_of (zip lower_letters upper_letters) c of Some d \<Rightarrow> d | None \<Rightarrow> c)"

definition py_lower :: "string \<Rightarrow> string" where
  "py_lower t = map lower_char t"

definition py_upper :: "string \<Rightarrow> string" where
  "py_upper t = map upper_char t"

text \<open>\<open>t.strip(chars)\<close> removes the leading and trailing characters that satisfy \<open>p\<close>.\<close>

definition strip_chars :: "(char \<Rightarrow> bool) \<Rightarrow> string \<Rightarrow> string" where
  "strip_chars p t = rev (dropWhile p (rev (dropWhile p t)))"

definition py_strip :: "string \<Rightarrow> string" where
  "py_strip t = strip_chars is_space t"

definition startswith :: "string \<Rightarrow> string \<Rightarrow> bool" where
  "startswith t pre \<longleftrightarrow> take (length pre) t = pre"

text \<open>\<open>sep.join(xs)\<close>.\<close>

fun py_join :: "string \<Rightarrow> string list \<Rightarrow> string" where
  "py_join sep [] = []"
| "py_join sep [x] = x"
| "py_join sep (x # y # xs) = x @ sep @ py_join sep (y # xs)"

text \<open>\<open>t.split()\<close>: the maximal runs of non-whitespace characters.\<close>

fun split_ws :: "string \<Rightarrow> string \<Rightarrow> string list" where
  "split_ws cur [] = (if cur = [] then [] else [cur])"
| "split_ws cur (c # cs) =
     (if is_space c then (if cur = [] then split_ws [] cs else cur # split_ws [] cs)
      else split_ws (cur @ [c]) cs)"

definition py_split :: "string \<Rightarrow> string list" where
  "py_split t = split_ws [] t"

text \<open>\<open>t.splitlines()\<close>: a line ends at a line break (CR LF counts once); a final line
  break opens no further line.\<close>

fun split_lines :: "string \<Rightarrow> string \<Rightarrow> string list" where
  "split_lines cur [] = (if cur = [] then [] else [cur])"
| "split_lines cur [c] = (if is_linebreak c then [cur] else [cur @ [c]])"
| "split_lines cur (c # d # cs) =
     (if c = CR \<and> d = LF then cur # split_lines [] cs
      else if is_linebreak c then cur # split_lines [] (d # cs)
      else split_lines (cur @ [c]) (d # cs))"

definition splitlines :: "string \<Rightarrow> string list" where
  "splitlines t = split_lines [] t"

text \<open>\<open>xs[-n:]\<close> for a positive \<open>n\<close>: the last \<open>n\<close> elements, all of them when there are
  fewer.\<close>

definition last_n :: "nat \<Rightarrow> 'a list \<Rightarrow> 'a list" where
  "last_n n xs = drop (length xs - n) xs"

text \<open>Decimal printing: \<open>str(n)\<close> and the format \<open>{n:4d}\<close> (right-aligned in four
  columns).\<close>

fun str_nat :: "nat \<Rightarrow> string" where
  "str_nat n =
     (if n < 10 then [digit_chars ! n] else str_nat (n div 10) @ [digit_chars ! (n mod 10)])"

declare str_nat.simps [simp del]

definition str_int :: "int \<Rightarrow> string" where
  "str_int i = (if i < 0 then CHR ''-'' # str_nat (nat (- i)) else str_nat (nat i))"


text \<open>Python truthiness of an \<open>Optional[str]\<close>: \<open>None\<close> and the empty string are false.\<close>

definition truthy :: "string option \<Rightarrow> bool" where
  "truthy v \<longleftrightarrow> (case v of None \<Rightarrow> False | Some t \<Rightarrow> t \<noteq> [])"

section \<open>The line shell: session state\<close>

text \<open>
  The fields of \<open>CodexVoiceShell\<close> that the command interpreter reads and writes, followed
  by the parts of the outside world its actions reach: the texts handed to the
  speech synthesiser, the settings and profile files, the operating-system commands run,
  the number of child processes started so far, and the typed lines still to be read from
  standard input. Console output that is not buffered (\<open>buffer=False\<close>, the status line
  among it) and the two log files are not part of the state.
\<close>

record persisted_settings =
  ps_assistant_name :: string
  ps_guided_mode :: bool
  ps_model :: string
  ps_reasoning :: string
  ps_debug_enabled :: bool
  ps_save_recordings :: bool
  ps_save_prompts :: bool
  ps_use_color :: bool
  ps_tts_speed :: rat
  ps_buffer_mode :: string
  ps_voice_index :: int

record session =
  assistant_name :: string
  guided_mode :: bool
  current_model :: string
  current_reasoning :: string
  debug_enabled :: bool
  save_recordings :: bool
  save_prompts :: bool
  use_color :: bool
  tts_speed :: rat
  buffer_mode :: string
  buffer_anchor_index :: int
  buffer_last_action_index :: int
  voice_index :: int
  logger_enable_debug :: bool
  logger_enable_session_log :: bool
  profile_data :: "string \<Rightarrow> string list option"
  terminal_buffer :: "string list"
  prompt_text :: string
  pending_shell_command :: "string option"
  pending_shell_explanation :: "string option"
  last_codex_prompt :: "string option"
  last_codex_response :: "string option"
  prompt_capture :: bool
  confirm_mode :: "string option"
  exit_requested :: bool
  listening :: bool
  vosk_loaded :: bool
  tts_loaded :: bool
  tts_speakers :: "string list"
  spoken :: "string list"
  settings_file :: "persisted_settings option"
  profile_file :: "(string \<Rightarrow> string list option) option"
  shell_runs :: "string list"
  proc_calls :: nat
  stdin :: "string list"

section \<open>Buffer and history windowing\<close>

text \<open>The start index chosen by the buffer mode (\<open>_get_history_for_shell\<close>, the
  \<open>if\<close>/\<open>elif\<close> chain on \<open>buffer_mode\<close>).\<close>

definition policy_start :: "session \<Rightarrow> int" where
  "policy_start s =
     (if buffer_mode s = ''session'' then 0
      else if buffer_mode s = ''anchor'' then buffer_anchor_index s
      else if buffer_mode s = ''last'' then buffer_last_action_index s
      else 0)"

text \<open>The guard of \<open>_get_history_for_shell\<close>: a start index that is negative or beyond
  the buffer falls back to \<open>0\<close>.\<close>

definition window_start :: "session \<Rightarrow> int" where
  "window_start s =
     (let start = policy_start s in
      if start < 0 \<or> start > int (length (terminal_buffer s)) then 0 else start)"

text \<open>The buffer entries of the window: \<open>terminal_buffer[start:]\<close>, then \<open>lines[-400:]\<close>.\<close>

definition history_lines :: "session \<Rightarrow> string list" where
  "history_lines s =
     (let lines = drop (nat (window_start s)) (terminal_buffer s) in last_n 400 lines)"

definition get_history_for_shell :: "session \<Rightarrow> string" where
  "get_history_for_shell s =
     (if terminal_buffer s = [] then [] else py_join [LF] (history_lines s))"



section \<open>The line shell: collaborators\<close>

text \<open>
  What the shell obtains from outside the program is a parameter of the model: the
  similarity ratio of Python's \<open>difflib.SequenceMatcher\<close>, the parsing and printing of
  numbers, the two child processes (the code-generation tool and the operating-system
  shell, each answering by the number of the call), and which optional libraries are
  installed.
\<close>

datatype codex_result =
    Codex_Not_Found
  | Codex_Failed string
  | Codex_Done int string string

datatype shell_result =
    Shell_Failed string
  | Shell_Done string string

record env =
  ratio :: "string \<Rightarrow> string \<Rightarrow> rat"
  parse_float :: "string \<Rightarrow> rat option"
  parse_int :: "string \<Rightarrow> int option"
  fmt_2f :: "rat \<Rightarrow> string"
  run_codex :: "nat \<Rightarrow> string list \<Rightarrow> codex_result"
  run_shell :: "nat \<Rightarrow> string \<Rightarrow> shell_result"
  colorama_available :: bool
  sounddevice_available :: bool
  vosk_available :: bool
  vosk_model_path :: string
  vosk_model_exists :: bool
  vosk_load_error :: "string option"
  settings_writable :: bool
  profile_writable :: bool

definition TTS_SPEED_MIN :: rat where
  "TTS_SPEED_MIN = 1 / 2"

definition TTS_SPEED_MAX :: rat where
  "TTS_SPEED_MAX = 2"

definition TTS_SPEED_STEP :: rat where
  "TTS_SPEED_STEP = 1 / 4"

section \<open>The line shell: printing and speaking\<close>

text \<open>\<open>_print(text)\<close> with \<open>buffer=True\<close>: a non-empty text is appended to the
  terminal buffer.\<close>

definition print_buf :: "string \<Rightarrow> session \<Rightarrow> session" where
  "print_buf text s =
     (if text = [] then s else s\<lparr>terminal_buffer := terminal_buffer s @ [text]\<rparr>)"

text \<open>\<open>_print_status\<close> writes the status line with \<open>buffer=False\<close>: the state is the
  same afterwards.\<close>

definition print_status :: "session \<Rightarrow> session" where
  "print_status s = s"

text \<open>The cleaning loop of \<open>_speak\<close>.\<close>

fun clean_for_speech :: "string list \<Rightarrow> string list" where
  "clean_for_speech [] = []"
| "clean_for_speech (line # rest) =
     (let ls = py_strip line in
      if ls = [] then clean_for_speech rest
      else if startswith (py_lower ls) ''model:'' then clean_for_speech rest
      else if startswith (py_lower ls) ''reasoning:'' then clean_for_speech rest
      else (if startswith ls ''- '' \<or> startswith ls ''* '' then drop 2 ls else ls)
           # clean_for_speech rest)"

text \<open>\<open>_speak\<close>: nothing without a synthesiser or a text; otherwise the cleaned text is
  handed to the synthesiser (recorded in \<open>spoken\<close>). Synthesis, playback and the
  optional recording report their failures on the console only.\<close>

definition speak :: "string \<Rightarrow> session \<Rightarrow> session" where
  "speak text s =
     (if \<not> tts_loaded s \<or> text = [] then s
      else
        (let cleaned_lines = clean_for_speech (splitlines text) in
         if cleaned_lines = [] then s
         else s\<lparr>spoken := spoken s @ [py_join '' '' cleaned_lines]\<rparr>))"

definition guided_speak :: "string \<Rightarrow> session \<Rightarrow> session" where
  "guided_speak text s = (if guided_mode s then speak text s else s)"

definition on_off :: "bool \<Rightarrow> string" where
  "on_off b = (if b then ''ON'' else ''OFF'')"

section \<open>The line shell: alias profile and fuzzy matching\<close>

text \<open>\<open>VoiceProfile.get_aliases\<close> of the shell: the recorded aliases, lower-cased,
  trimmed and without repetitions, in their recorded order; the default when none is
  recorded.\<close>

fun collect_aliases :: "string list \<Rightarrow> string list \<Rightarrow> string list" where
  "collect_aliases out [] = out"
| "collect_aliases out (w # ws) =
     (let wl = py_strip (py_lower w) in
      if wl \<noteq> [] \<and> wl \<notin> set out then collect_aliases (out @ [wl]) ws
      else collect_aliases out ws)"

definition profile_get_aliases :: "session \<Rightarrow> string \<Rightarrow> string list \<Rightarrow> string list" where
  "profile_get_aliases s key dflt =
     (case profile_data s (py_lower key) of
        None \<Rightarrow> dflt
      | Some vals \<Rightarrow> if vals = [] then dflt else collect_aliases [] vals)"

fun append_aliases :: "string list \<Rightarrow> string list \<Rightarrow> string list" where
  "append_aliases base [] = base"
| "append_aliases base (w # ws) =
     (let wl = py_strip (py_lower w) in
      if wl \<noteq> [] \<and> wl \<notin> set base then append_aliases (base @ [wl]) ws
      else append_aliases base ws)"

definition profile_add_aliases :: "string \<Rightarrow> string list \<Rightarrow> session \<Rightarrow> session" where
  "profile_add_aliases key words s =
     (let key = py_lower key;
          base = (case profile_data s key of None \<Rightarrow> [] | Some b \<Rightarrow> b);
          base = map py_lower base
      in s\<lparr>profile_data := (profile_data s)(key \<mapsto> append_aliases base words)\<rparr>)"

definition profile_save :: "env \<Rightarrow> session \<Rightarrow> session" where
  "profile_save e s =
     (if profile_writable e then s\<lparr>profile_file := Some (profile_data s)\<rparr> else s)"

definition norm :: "string \<Rightarrow> string" where
  "norm t = filter (\<lambda>ch. is_alnum ch \<or> is_space ch) (py_strip (py_lower t))"

definition tokenize :: "string \<Rightarrow> string list" where
  "tokenize t = filter (\<lambda>t. t \<noteq> []) (py_split (norm t))"

text \<open>\<open>_fuzzy_in\<close>: the best ratio over the candidates, starting from \<open>0.0\<close>, against
  the threshold.\<close>

definition fuzzy_in :: "env \<Rightarrow> string \<Rightarrow> string list \<Rightarrow> rat \<Rightarrow> bool" where
  "fuzzy_in e word candidates threshold =
     (let word = py_strip (py_lower word) in
      if word = [] \<or> candidates = [] then False
      else
        (let best = fold (\<lambda>c best.
                      let r = ratio e word (py_strip (py_lower c))
                      in if r > best then r else best) candidates 0
         in best \<ge> threshold))"

definition default_threshold :: rat where
  "default_threshold = 78 / 100"

definition get_wake_variants :: "session \<Rightarrow> string list" where
  "get_wake_variants s =
     (let base = py_strip (py_lower (assistant_name s));
          wake_aliases = profile_get_aliases s ''wake'' []
      in sort (remdups (base # map py_lower wake_aliases)))"

definition get_yes_variants :: "session \<Rightarrow> string list" where
  "get_yes_variants s =
     profile_get_aliases s ''yes''
       [''yes'', ''yeah'', ''yep'', ''confirm'', ''sure'', ''ok'', ''okay'']"

definition get_no_variants :: "session \<Rightarrow> string list" where
  "get_no_variants s =
     profile_get_aliases s ''no'' [''no'', ''nope'', ''cancel'', ''stop'', ''never'']"

definition get_guided_variants :: "session \<Rightarrow> string list" where
  "get_guided_variants s =
     profile_get_aliases s ''guided'' [''guided'', ''talkative'', ''explain'', ''helpful'']"

definition get_unguided_variants :: "session \<Rightarrow> string list" where
  "get_unguided_variants s =
     profile_get_aliases s ''unguided'' [''unguided'', ''quiet'', ''minimal'']"

section \<open>The line shell: code-generation tool\<close>

definition SQ :: char where
  "SQ = CHR 0x27"

definition DQ :: char where
  "DQ = CHR 0x22"

text \<open>\<open>shlex.quote\<close>.\<close>

definition shlex_safe :: "char \<Rightarrow> bool" where
  "shlex_safe c \<longleftrightarrow> is_alnum c \<or> c \<in> set ''_@%+=:,./-''"

definition shlex_quote :: "string \<Rightarrow> string" where
  "shlex_quote t =
     (if t = [] then [SQ, SQ]
      else if list_all shlex_safe t then t
      else [SQ] @ concat (map (\<lambda>c. if c = SQ then [SQ, DQ, SQ, DQ, SQ] else [c]) t) @ [SQ])"

definition build_codex_command :: "session \<Rightarrow> string \<Rightarrow> string list" where
  "build_codex_command s prompt =
     [''codex'', ''exec'', ''--skip-git-repo-check'', ''--model'', current_model s, ''--config'',
      ''model_reasoning_effort='' @ [DQ] @ current_reasoning s @ [DQ], prompt]"

text \<open>\<open>_run_codex_prompt\<close>. The child process answers through \<open>run_codex\<close>: the tool
  is missing, starting it fails, or it ends with an exit code, its standard output and its
  standard error.\<close>

definition run_codex_prompt :: "env \<Rightarrow> string \<Rightarrow> session \<Rightarrow> session" where
  "run_codex_prompt e prompt s =
     (let s = s\<lparr>last_codex_prompt := Some prompt\<rparr>;
          cmd = build_codex_command s prompt;
          s = print_buf [] s;
          s = print_buf (replicate 80 CHR ''='') s;
          s = print_buf ''New Codex run:'' s;
          s = print_buf (''Model: '' @ current_model s @ '', Reasoning: '' @ current_reasoning s) s;
          s = print_buf (''Prompt:'' @ [LF] @ prompt) s;
          s = print_buf ''Command:'' s;
          s = print_buf (py_join '' '' (map shlex_quote cmd)) s;
          s = print_buf ''+----------------------------------------+'' s;
          s = print_buf ''|  Running Codex, please wait...        |'' s;
          s = print_buf ''+----------------------------------------+'' s;
          result = run_codex e (proc_calls s) cmd;
          s = s\<lparr>proc_calls := Suc (proc_calls s)\<rparr>
      in case result of
           Codex_Not_Found \<Rightarrow>
             (let msg = ''Error: 'codex' CLI not found. ''
                        @ ''Install with 'npm install -g @openai/codex' and run 'codex login'.'';
                  s = print_buf msg s
              in s\<lparr>last_codex_response := Some msg\<rparr>)
         | Codex_Failed err \<Rightarrow>
             (let msg = ''Error running codex: '' @ err;
                  s = print_buf msg s
              in s\<lparr>last_codex_response := Some msg\<rparr>)
         | Codex_Done returncode out err \<Rightarrow>
             (let out = (if returncode \<noteq> 0
                         then ''Error (exit code '' @ str_int returncode @ ''):'' @ [LF]
                              @ (if err = [] then ''(no stderr)'' else err)
                         else (if out = [] then ''(no output)'' else out));
                  s = print_buf ''Output:'' s;
                  s = print_buf out s;
                  s = s\<lparr>last_codex_response := Some out\<rparr>;
                  s = s\<lparr>buffer_last_action_index := int (length (terminal_buffer s))\<rparr>;
                  s = guided_speak ''Response ready.'' s
              in print_status s))"

section \<open>Command and explanation extraction\<close>

text \<open>The non-empty lines of the response, trimmed.\<close>

definition response_lines :: "string \<Rightarrow> string list" where
  "response_lines raw = filter (\<lambda>l. l \<noteq> []) (map py_strip (splitlines raw))"

text \<open>The loop of \<open>_extract_cmd_expl_from_response\<close> over those lines.\<close>

fun scan_cmd_expl ::
  "string list \<Rightarrow> string option \<times> string option \<Rightarrow> string option \<times> string option" where
  "scan_cmd_expl [] found = found"
| "scan_cmd_expl (l # ls) (cmd_line, expl_line) =
     (let up = py_upper l in
      if startswith up ''CMD:'' then scan_cmd_expl ls (Some (py_strip (drop 4 l)), expl_line)
      else if startswith up ''EXPL:'' then scan_cmd_expl ls (cmd_line, Some (py_strip (drop 5 l)))
      else scan_cmd_expl ls (cmd_line, expl_line))"

definition extract_cmd_expl :: "string \<Rightarrow> string option \<times> string option" where
  "extract_cmd_expl raw =
     (let lines = response_lines raw;
          (cmd_line, expl_line) = scan_cmd_expl lines (None, None);
          cmd_line = (if cmd_line = None \<and> lines \<noteq> [] then Some (lines ! 0) else cmd_line);
          expl_line = (if expl_line = None \<and> length lines > 1 then Some (lines ! 1) else expl_line)
      in (cmd_line, expl_line))"

definition extract_cmd_expl_from_response :: "session \<Rightarrow> string option \<times> string option" where
  "extract_cmd_expl_from_response s =
     extract_cmd_expl (case last_codex_response s of None \<Rightarrow> [] | Some r \<Rightarrow> r)"

section \<open>The line shell: command suggestions\<close>

definition or_empty :: "string option \<Rightarrow> string" where
  "or_empty v = (case v of None \<Rightarrow> [] | Some t \<Rightarrow> t)"

definition shell_request_prompt :: "string \<Rightarrow> string \<Rightarrow> string \<Rightarrow> string" where
  "shell_request_prompt user_req mode history =
     ''You are an expert Linux shell assistant.'' @ [LF]
     @ ''You will receive:'' @ [LF]
     @ '' - The user's high-level request (may be empty).'' @ [LF]
     @ '' - Recent terminal history (commands and outputs).'' @ [LF] @ [LF]
     @ ''Your job:'' @ [LF]
     @ '' - Decide the single best next shell command to run.'' @ [LF]
     @ '' - Explain briefly what it does.'' @ [LF] @ [LF]
     @ ''IMPORTANT OUTPUT FORMAT:'' @ [LF]
     @ ''Return EXACTLY TWO non-empty lines, and nothing else:'' @ [LF]
     @ ''  LINE 1: CMD: <the exact shell command to run>'' @ [LF]
     @ ''  LINE 2: EXPL: <a short natural language explanation, <= 25 words>'' @ [LF]
     @ ''No backticks, no extra commentary, no bullet points.'' @ [LF] @ [LF]
     @ ''USER HIGH-LEVEL REQUEST:'' @ [LF]
     @ user_req @ [LF] @ [LF]
     @ ''BUFFER MODE: '' @ mode @ [LF]
     @ ''=== TERMINAL HISTORY START ==='' @ [LF]
     @ history @ [LF]
     @ ''=== TERMINAL HISTORY END ==='' @ [LF]"

text \<open>\<open>_voice_shell_request\<close>.\<close>

definition voice_shell_request :: "env \<Rightarrow> session \<Rightarrow> session" where
  "voice_shell_request e s =
     (let history = get_history_for_shell s in
      if history = [] \<and> py_strip (prompt_text s) = []
      then
        (let s = print_buf ''[SHELL] No history or prompt to analyze.'' s
         in guided_speak ''There is no buffer or prompt yet.'' s)
      else
        (let user_req = (if py_strip (prompt_text s) = [] then ''(none)''
                         else py_strip (prompt_text s));
             prompt = shell_request_prompt user_req (buffer_mode s) history;
             s = s\<lparr>pending_shell_explanation := None\<rparr>;
             s = run_codex_prompt e prompt s;
             (cmd_line, expl_line) = extract_cmd_expl_from_response s
         in
           if truthy cmd_line
           then
             (let s = s\<lparr>pending_shell_command := cmd_line,
                           pending_shell_explanation := Some (or_empty expl_line)\<rparr>;
                  s = print_buf (''[SHELL] Proposed shell command: ''
                                 @ or_empty (pending_shell_command s)) s;
                  s = (if truthy (pending_shell_explanation s)
                       then print_buf (''[SHELL] Explanation: ''
                                       @ or_empty (pending_shell_explanation s)) s
                       else s);
                  s = (if guided_mode s
                       then
                         (if truthy (pending_shell_explanation s)
                          then speak (or_empty (pending_shell_explanation s) @ ''. ''
                                 @ ''You can say execute to run it, or respond to hear this again.'') s
                          else speak (''I have proposed a shell command. ''
                                 @ ''Say execute to run it, or respond to hear the response.'') s)
                       else s)
              in print_status s)
           else
             (let s = s\<lparr>pending_shell_command := None, pending_shell_explanation := None\<rparr>;
                  s = print_buf ''[SHELL] Could not extract a single command from Codex response.'' s;
                  s = guided_speak ''I could not extract a single command from the response.'' s
              in print_status s)))"

definition app_request_prompt :: "string \<Rightarrow> string \<Rightarrow> string" where
  "app_request_prompt user_req history =
     ''You are the control logic for a voice-enabled shell application called Alice Shell.'' @ [LF]
     @ ''The app supports two kinds of internal commands:'' @ [LF]
     @ ''  1) Typed commands starting with 'v-' such as:'' @ [LF]
     @ ''     v-help, v-settings, v-prompt, v-command, v-voicecmd, v-history, v-buffer clear,'' @ [LF]
     @ ''     v-guided-on, v-guided-off, v-speed 1.2, v-respond, v-repeat, v-recordings, v-logprompts,''
     @ [LF]
     @ ''     v-debug, v-save, v-exec, v-exit, v-listen.'' @ [LF]
     @ ''  2) Voice commands starting with the assistant name, for example:'' @ [LF]
     @ ''     Alice prompt, Alice done, Alice run, Alice shell command,'' @ [LF]
     @ ''     Alice voice command, Alice execute, Alice respond, Alice repeat,'' @ [LF]
     @ ''     Alice history, Alice buffer last, Alice mode guided, Alice speed increase,'' @ [LF]
     @ ''     Alice test voice, Alice test shell, Alice test both.'' @ [LF] @ [LF]
     @ ''Your job:'' @ [LF]
     @ ''  - Look at the user's high-level request and the recent shell history.'' @ [LF]
     @ ''  - Choose the single most helpful internal control command to invoke next.'' @ [LF]
     @ ''  - Prefer 'v-' commands when it is something the user might type, or'' @ [LF]
     @ ''    an 'Alice ...' voice command when the user is working by voice.'' @ [LF]
     @ ''  - Do NOT return plain shell commands like 'ls', 'git status', etc.'' @ [LF] @ [LF]
     @ ''IMPORTANT OUTPUT FORMAT:'' @ [LF]
     @ ''Return EXACTLY TWO non-empty lines, and nothing else:'' @ [LF]
     @ ''  LINE 1: CMD: <the internal command: either v-... or 'Alice ...'>'' @ [LF]
     @ ''  LINE 2: EXPL: <a short natural language explanation, <= 25 words>'' @ [LF]
     @ ''No backticks, no extra commentary.'' @ [LF] @ [LF]
     @ ''USER HIGH-LEVEL REQUEST:'' @ [LF]
     @ user_req @ [LF] @ [LF]
     @ ''=== RECENT SHELL HISTORY (may be empty) ==='' @ [LF]
     @ history @ [LF]
     @ ''=== END HISTORY ==='' @ [LF]"

text \<open>\<open>_voice_app_command_request\<close>.\<close>

definition voice_app_command_request :: "env \<Rightarrow> session \<Rightarrow> session" where
  "voice_app_command_request e s =
     (let history = get_history_for_shell s;
          user_req = (if py_strip (prompt_text s) = [] then ''(none)''
                      else py_strip (prompt_text s));
          prompt = app_request_prompt user_req history;
          s = s\<lparr>pending_shell_explanation := None\<rparr>;
          s = run_codex_prompt e prompt s;
          (cmd_line, expl_line) = extract_cmd_expl_from_response s
      in
        if truthy cmd_line
        then
          (let s = s\<lparr>pending_shell_command := cmd_line,
                        pending_shell_explanation := Some (or_empty expl_line)\<rparr>;
               s = print_buf (''[SHELL] Proposed voice command: ''
                              @ or_empty (pending_shell_command s)) s;
               s = (if truthy (pending_shell_explanation s)
                    then print_buf (''[SHELL] Explanation: ''
                                    @ or_empty (pending_shell_explanation s)) s
                    else s);
               s = (if guided_mode s
                    then
                      (if truthy (pending_shell_explanation s)
                       then speak (or_empty (pending_shell_explanation s) @ ''. ''
                              @ ''You can say execute to run this command, or respond to hear this again.'') s
                       else speak (''I have proposed an internal command. ''
                              @ ''Say execute to run it, or respond to hear the response.'') s)
                    else s)
           in print_status s)
        else
          (let s = s\<lparr>pending_shell_command := None, pending_shell_explanation := None\<rparr>;
               s = print_buf ''[SHELL] Could not extract an internal command from Codex response.'' s;
               s = guided_speak ''I could not extract an internal command from the response.'' s
           in print_status s))"

section \<open>The line shell: settings, banner, recogniser\<close>

text \<open>\<open>_save_settings\<close>: the settings are written when the file can be opened; the
  notice goes to the console only.\<close>

definition save_settings :: "env \<Rightarrow> session \<Rightarrow> session" where
  "save_settings e s =
     (let data = \<lparr> ps_assistant_name = assistant_name s,
                    ps_guided_mode = guided_mode s,
                    ps_model = current_model s,
                    ps_reasoning = current_reasoning s,
                    ps_debug_enabled = debug_enabled s,
                    ps_save_recordings = save_recordings s,
                    ps_save_prompts = save_prompts s,
                    ps_use_color = use_color s,
                    ps_tts_speed = tts_speed s,
                    ps_buffer_mode = buffer_mode s,
                    ps_voice_index = voice_index s \<rparr>
      in if settings_writable e then s\<lparr>settings_file := Some data\<rparr> else s)"

definition print_all :: "string list \<Rightarrow> session \<Rightarrow> session" where
  "print_all texts s = fold print_buf texts s"

definition buffer_mode_line :: "string \<Rightarrow> session \<Rightarrow> string" where
  "buffer_mode_line tag s =
     tag @ '' Buffer mode: '' @ buffer_mode s
     @ '' (anchor='' @ str_int (buffer_anchor_index s)
     @ '', last_action='' @ str_int (buffer_last_action_index s) @ '')''"

text \<open>\<open>_print_settings\<close>.\<close>

definition print_settings :: "env \<Rightarrow> session \<Rightarrow> session" where
  "print_settings e s =
     (let s = print_buf ''=== Settings ==='' s;
          s = print_buf (''Assistant name: '' @ assistant_name s) s;
          s = print_buf (''Guided mode: '' @ on_off (guided_mode s)) s;
          s = print_buf (''Model: '' @ current_model s) s;
          s = print_buf (''Reasoning: '' @ current_reasoning s) s;
          s = print_buf (''Debug logging: '' @ on_off (debug_enabled s)) s;
          s = print_buf (''Save recordings: '' @ on_off (save_recordings s)) s;
          s = print_buf (''Log prompts/responses: '' @ on_off (save_prompts s)) s;
          s = print_buf (''Fancy output: '' @ on_off (use_color s)) s;
          s = print_buf (''TTS speed: '' @ fmt_2f e (tts_speed s) @ ''x'') s;
          s = print_buf (''Buffer mode: '' @ buffer_mode s
                         @ '' (anchor='' @ str_int (buffer_anchor_index s)
                         @ '', last_action='' @ str_int (buffer_last_action_index s) @ '')'') s;
          s = (if tts_speakers s \<noteq> []
               then
                 (let current =
                        (if 0 \<le> voice_index s \<and> voice_index s < int (length (tts_speakers s))
                         then tts_speakers s ! nat (voice_index s) else ''default'')
                  in print_buf (''Voice index: '' @ str_int (voice_index s + 1) @ '' / ''
                                @ str_nat (length (tts_speakers s)) @ '' ('' @ current @ '')'') s)
               else print_buf ''Voice: default / single-speaker'' s)
      in print_status s)"

definition banner_lines :: "env \<Rightarrow> session \<Rightarrow> string list" where
  "banner_lines e s =
     [''+'' @ replicate 35 CHR ''='' @ ''+'',
      ''|  '' @ ''  Codex Voice Shell (alice-shell)  '' @ ''  |'',
      ''+'' @ replicate 35 CHR ''='' @ ''+'',
      ''Assistant name: '' @ assistant_name s,
      ''Model: '' @ current_model s @ '', Reasoning: '' @ current_reasoning s,
      ''Guided mode: '' @ on_off (guided_mode s),
      ''TTS speed: '' @ fmt_2f e (tts_speed s) @ ''x'',
      ''Type normal shell commands to run them.'',
      ''Prefix with 'v-' to send commands to the voice assistant (e.g., v-help).'',
      ''Examples:'',
      ''  v-help              # show voice shell help'',
      ''  v-settings          # show current settings'',
      ''  v-prompt            # edit the Codex prompt via keyboard'',
      ''  v-command           # ask Codex for next shell command based on buffer'',
      ''  v-voicecmd          # ask Codex for next internal voice/v- command'',
      ''  v-history           # show the buffer slice that will be sent'',
      ''  v-guided-on/off     # toggle guided mode'',
      ''  v-fancy-on/off      # toggle colored output'',
      ''  v-speed 1.2         # set TTS speed'',
      ''  v-buffer clear|session|last   # choose buffer slice for shell command'',
      ''  v-respond           # read last explanation/response'',
      ''  v-repeat            # read & print current prompt'',
      ''  v-recordings        # toggle saving speech recordings'',
      ''  v-logprompts        # toggle logging prompts/responses'',
      ''  v-debug             # toggle debug logging'',
      ''  v-save              # save current settings to disk'',
      ''  v-exec              # execute last proposed command (v- or shell)'',
      ''  v-exit              # exit this voice shell'',
      ''  v-listen            # (re)start microphone listening'',
      ''Voice commands (with assistant name):'',
      ''  Alice settings         # read current settings'',
      ''  Alice save recordings  # enable saving speech recordings (with confirmation)'',
      ''  Alice log              # enable prompt/response logging (with confirmation)'',
      ''  Alice debug on/off     # toggle debug logging'',
      ''  Alice rename <name>    # change assistant name'',
      ''  Alice prompt           # start prompt editing (voice dictation)'',
      ''  Alice done             # stop prompt editing (or press Enter on empty line)'',
      ''  Alice run              # submit the prompt'',
      ''  Alice shell command    # suggest next OS shell command'',
      ''  Alice voice command    # suggest next internal v- / Alice command'',
      ''  Alice execute          # confirm running the suggested command'',
      ''  Alice respond          # speak explanation / last response'',
      ''  Alice repeat           # speak & print current prompt'',
      ''  Alice history          # show buffer slice preview'',
      ''  Alice buffer clear / session / last'',
      ''  Alice mode guided / unguided'',
      ''  Alice speed / speed increase / speed 1.2'',
      ''  Alice save             # save settings (with confirmation)'',
      ''  Alice exit             # exit this voice shell (with confirmation)'',
      ''  Alice listen / stop listening'',
      ''  Alice test voice / test shell / test both'',
      ''  Alice self directed    # run both self-tests (voice + shell)'',
      []]"

text \<open>\<open>_print_banner\<close>.\<close>

definition print_banner :: "env \<Rightarrow> session \<Rightarrow> session" where
  "print_banner e s = print_status (print_all (banner_lines e s) s)"

text \<open>\<open>_init_stt\<close>.\<close>

definition init_stt :: "env \<Rightarrow> session \<Rightarrow> session" where
  "init_stt e s =
     (if \<not> sounddevice_available e \<or> \<not> vosk_available e
      then print_buf ''[VOICE] Vosk / sounddevice not available; voice disabled.'' s
      else if \<not> vosk_model_exists e
      then print_buf (''[VOICE] Vosk model folder not found: '' @ vosk_model_path e) s
      else if \<not> vosk_loaded s \<and> vosk_load_error e \<noteq> None
      then
        (let s = print_buf (''[VOICE] Loading Vosk model from: '' @ vosk_model_path e) s;
             s = print_buf (''[VOICE] Failed to load Vosk model: '' @ or_empty (vosk_load_error e)) s
         in s\<lparr>vosk_loaded := False\<rparr>)
      else
        (let s = (if \<not> vosk_loaded s
                  then (print_buf (''[VOICE] Loading Vosk model from: '' @ vosk_model_path e) s)
                         \<lparr>vosk_loaded := True\<rparr>
                  else s)
         in if listening s then print_buf ''[VOICE] Already listening.'' s
            else
              (let s = s\<lparr>listening := True\<rparr>;
                   s = print_buf ''[VOICE] Listening started.'' s
               in print_status s)))"

text \<open>\<open>_run_shell_command\<close>. The command is handed to the operating system
  (recorded in \<open>shell_runs\<close>); its output lines are printed into the buffer.\<close>

definition run_shell_command :: "env \<Rightarrow> string \<Rightarrow> session \<Rightarrow> session" where
  "run_shell_command e command s =
     (if py_strip command = [] then s
      else
        (let s = print_buf (''$ '' @ command) s;
             result = run_shell e (proc_calls s) command;
             s = s\<lparr>proc_calls := Suc (proc_calls s), shell_runs := shell_runs s @ [command]\<rparr>
         in case result of
              Shell_Failed err \<Rightarrow> print_buf (''[SHELL] Error running command: '' @ err) s
            | Shell_Done out err \<Rightarrow>
                (let s = (if out \<noteq> [] then print_all (splitlines out) s else s);
                     s = (if err \<noteq> [] then print_all (splitlines err) s else s);
                     s = s\<lparr>buffer_last_action_index := int (length (terminal_buffer s))\<rparr>
                 in print_status s)))"

section \<open>The line shell: voice commands\<close>

text \<open>The branches of \<open>_handle_wake_command\<close>, one definition each, in the order of the
  source; \<open>wake_dispatch\<close> below is the chain of tests that selects among them.\<close>

definition wake_mode :: "env \<Rightarrow> string list \<Rightarrow> session \<Rightarrow> session" where
  "wake_mode e tokens s =
     (let mode_word = tokens ! 1;
          guided_words = get_guided_variants s;
          unguided_words = get_unguided_variants s
      in if fuzzy_in e mode_word guided_words default_threshold
         then
           (let s = s\<lparr>guided_mode := True\<rparr>;
                s = print_buf ''[VOICE] Mode set to Guided.'' s
            in guided_speak ''Guided mode enabled.'' s)
         else if fuzzy_in e mode_word unguided_words default_threshold
         then
           (let s = s\<lparr>guided_mode := False\<rparr>;
                s = print_buf ''[VOICE] Mode set to Unguided.'' s
            in speak ''Unguided mode enabled.'' s)
         else
           (let s = print_buf (''[VOICE] Could not understand mode setting. ''
                               @ ''Say 'mode guided' or 'mode unguided'.'') s
            in guided_speak ''I did not catch guided or unguided.'' s))"

definition wake_settings :: "env \<Rightarrow> session \<Rightarrow> session" where
  "wake_settings e s = guided_speak ''Here are your current settings.'' (print_settings e s)"

definition wake_prompt :: "session \<Rightarrow> session" where
  "wake_prompt s =
     (let s = s\<lparr>prompt_capture := True\<rparr>;
          s = print_buf (''[VOICE] Prompt editing enabled. ''
                         @ ''Speak to add text; say 'done' when finished.'') s
      in guided_speak (''Prompt editing enabled. ''
                       @ ''Begin speaking your prompt, and say done when finished.'') s)"

definition wake_done :: "session \<Rightarrow> session" where
  "wake_done s =
     (if prompt_capture s
      then
        (let s = s\<lparr>prompt_capture := False\<rparr>;
             s = print_buf ''[VOICE] Prompt editing finished.'' s
         in guided_speak ''Prompt editing finished.'' s)
      else print_buf ''[VOICE] No prompt is currently being edited.'' s)"

definition wake_reasoning :: "env \<Rightarrow> string list \<Rightarrow> session \<Rightarrow> session" where
  "wake_reasoning e tokens s =
     (let level = tokens ! 1;
          levels = [''none'', ''low'', ''medium'', ''high''];
          matched = find (\<lambda>lv. fuzzy_in e level [lv] default_threshold) levels
      in case matched of
           Some lv \<Rightarrow>
             (let s = s\<lparr>current_reasoning := lv\<rparr>;
                  s = print_buf (''[VOICE] Reasoning set to: '' @ lv) s
              in guided_speak (''Reasoning set to '' @ lv @ ''.'') s)
         | None \<Rightarrow>
             (let s = print_buf ''[VOICE] Could not match reasoning level.'' s
              in guided_speak ''I could not match that reasoning level.'' s))"

text \<open>\<open>models.index(x)\<close> for an \<open>x\<close> in the list.\<close>

fun index_of :: "'a \<Rightarrow> 'a list \<Rightarrow> nat" where
  "index_of x [] = 0"
| "index_of x (y # ys) = (if x = y then 0 else Suc (index_of x ys))"

definition set_model_voice :: "string \<Rightarrow> session \<Rightarrow> session" where
  "set_model_voice m s =
     (let s = s\<lparr>current_model := m\<rparr>;
          s = print_buf (''[VOICE] Model set to: '' @ current_model s) s
      in guided_speak (''Model set to '' @ current_model s @ ''.'') s)"

text \<open>\<open>_handle_model_voice\<close>.\<close>

definition handle_model_voice :: "string \<Rightarrow> session \<Rightarrow> session" where
  "handle_model_voice tail s =
     (let models = [''gpt-5'', ''gpt-5-codex'', ''gpt-4.1'', ''gpt-4o''];
          idx = (if current_model s \<in> set models then int (index_of (current_model s) models)
                 else 0);
          tokens = py_split tail;
          head = (if tokens \<noteq> [] then tokens ! 0 else [])
      in if head \<in> {''next'', ''forward''}
         then set_model_voice (models ! nat ((idx + 1) mod int (length models))) s
         else if head \<in> {''previous'', ''prev'', ''back''}
         then set_model_voice (models ! nat ((idx - 1) mod int (length models))) s
         else
           (let name = py_strip tail in
            if name \<in> set models then set_model_voice name s
            else print_buf (''[VOICE] Unknown model: '' @ name) s))"

definition wake_model :: "string list \<Rightarrow> session \<Rightarrow> session" where
  "wake_model tokens s =
     (if length tokens \<ge> 2 then handle_model_voice (py_join '' '' (drop 1 tokens)) s else s)"

definition wake_buffer :: "string list \<Rightarrow> session \<Rightarrow> session" where
  "wake_buffer tokens s =
     (if length tokens = 1
      then print_buf (''[VOICE] Buffer mode: '' @ buffer_mode s
                      @ '' (anchor='' @ str_int (buffer_anchor_index s)
                      @ '', last_action='' @ str_int (buffer_last_action_index s) @ '')'') s
      else
        (let sub = tokens ! 1 in
         if sub = ''clear''
         then
           (let s = s\<lparr>buffer_mode := ''anchor''\<rparr>;
                s = s\<lparr>buffer_anchor_index := int (length (terminal_buffer s))\<rparr>;
                s = print_buf (''[VOICE] Buffer anchor set; ''
                               @ ''future shell commands will use history after this point.'') s
            in guided_speak ''Buffer cleared for shell commands. I will use only new history.'' s)
         else if sub = ''session''
         then
           (let s = s\<lparr>buffer_mode := ''session''\<rparr>;
                s = print_buf ''[VOICE] Buffer mode set to session (full history for this run).'' s
            in guided_speak ''Using the full session history for shell commands.'' s)
         else if sub = ''last''
         then
           (let s = s\<lparr>buffer_mode := ''last''\<rparr>;
                s = print_buf (''[VOICE] Buffer mode set to last ''
                               @ ''(since last Codex output or executed command).'') s
            in guided_speak ''Using only history since the last response or executed command.'' s)
         else
           (let s = print_buf (''[VOICE] Unknown buffer setting. ''
                               @ ''Say 'buffer clear', 'buffer session', or 'buffer last'.'') s
            in guided_speak ''Say buffer clear, buffer session, or buffer last.'' s)))"

text \<open>The preview itself goes to the console (\<open>print_history_preview\<close> above).\<close>

definition wake_history :: "session \<Rightarrow> session" where
  "wake_history s =
     guided_speak ''Showing a preview of the buffer I will send for shell commands.'' s"

definition wake_shell_command :: "env \<Rightarrow> session \<Rightarrow> session" where
  "wake_shell_command e s =
     (let s = print_buf (''[VOICE] Shell command: ''
                         @ ''sending buffer and prompt to Codex for next shell command.'') s;
          s = guided_speak (''Analyzing your shell history and prompt ''
                            @ ''to suggest the next shell command.'') s
      in voice_shell_request e s)"

definition wake_voice_command :: "env \<Rightarrow> session \<Rightarrow> session" where
  "wake_voice_command e s =
     (let s = print_buf (''[VOICE] Voice command: ''
                         @ ''asking Codex for an internal v- or voice command.'') s;
          s = guided_speak ''Analyzing your context to suggest an internal voice command.'' s
      in voice_app_command_request e s)"

definition wake_voice_shell :: "env \<Rightarrow> session \<Rightarrow> session" where
  "wake_voice_shell e s =
     (let s = print_buf ''[VOICE] (Alias) Shell command: sending buffer and prompt to Codex.'' s;
          s = guided_speak (''Analyzing your shell history and prompt ''
                            @ ''to suggest the next shell command.'') s
      in voice_shell_request e s)"

definition wake_execute :: "session \<Rightarrow> session" where
  "wake_execute s =
     (if \<not> truthy (pending_shell_command s)
      then
        (let s = print_buf ''[VOICE] No pending command to execute.'' s
         in guided_speak ''There is no pending command.'' s)
      else
        (let s = s\<lparr>confirm_mode := Some ''exec''\<rparr>;
             s = print_buf (''[CONFIRM] Execute: '' @ or_empty (pending_shell_command s)) s
         in if guided_mode s
            then
              (if truthy (pending_shell_explanation s)
               then speak (or_empty (pending_shell_explanation s) @ ''. ''
                           @ ''Do you want me to run this command? Say yes or no.'') s
               else speak ''Do you want me to run this command? Say yes or no.'' s)
            else s))"

definition wake_repeat :: "session \<Rightarrow> session" where
  "wake_repeat s =
     (if prompt_text s = []
      then
        (let s = print_buf ''[VOICE] No prompt to repeat.'' s
         in guided_speak ''There is no current prompt.'' s)
      else
        (let s = print_buf (''[PROMPT] '' @ prompt_text s) s
         in speak (prompt_text s) s))"

definition wake_respond :: "session \<Rightarrow> session" where
  "wake_respond s =
     (let expl = (if truthy (pending_shell_explanation s) then pending_shell_explanation s
                  else last_codex_response s)
      in if \<not> truthy expl
         then
           (let s = print_buf ''[VOICE] No response available to read.'' s
            in guided_speak ''There is no response yet.'' s)
         else
           (let s = print_buf (''[RESP] '' @ or_empty expl) s
            in speak (or_empty expl) s))"

text \<open>\<open>_speak_help\<close>.\<close>

definition help_message :: "string \<Rightarrow> string" where
  "help_message name =
     name @ '' voice help. ''
     @ ''Say '' @ [SQ] @ name @ '' prompt' to dictate or edit a prompt, then speak your text. ''
     @ ''Say '' @ [SQ] @ name @ '' done' to stop editing, or press Enter on an empty line. ''
     @ ''Say '' @ [SQ] @ name @ '' run' to submit the prompt. ''
     @ ''Say '' @ [SQ] @ name @ '' shell command' to analyze recent shell history and your prompt ''
     @ ''and propose a single shell command plus explanation. ''
     @ ''Say '' @ [SQ] @ name @ '' voice command' to get an internal control command ''
     @ ''like a v- command or voice command. ''
     @ ''Say '' @ [SQ] @ name @ '' execute' to run the proposed command, ''
     @ ''after you say yes at the confirmation prompt. ''
     @ ''Say '' @ [SQ] @ name @ '' respond' to hear the explanation or last response. ''
     @ ''Say '' @ [SQ] @ name @ '' repeat' to hear and print your current prompt. ''
     @ ''Say '' @ [SQ] @ name @ '' history' to preview the buffer slice I will send. ''
     @ ''Say '' @ [SQ] @ name @ '' buffer clear', 'buffer session', or 'buffer last' to control ''
     @ ''which part of history I use. ''
     @ ''Say '' @ [SQ] @ name @ '' mode guided' or 'mode unguided' to control how talkative I am. ''
     @ ''Say '' @ [SQ] @ name @ '' speed increase' or 'speed 1 point 2' to adjust my speaking rate. ''
     @ ''Say '' @ [SQ] @ name @ '' save recordings' or '' @ [SQ] @ name @ '' log' to configure ''
     @ ''saving and logging with confirmation. ''
     @ ''Say '' @ [SQ] @ name @ '' save' to save all settings to disk, and ''
     @ [SQ] @ name @ '' exit' ''
     @ ''to exit this voice shell. ''
     @ ''You can also say '' @ [SQ] @ name @ '' test voice', '' @ [SQ] @ name @ '' test shell', ''
     @ ''or '' @ [SQ] @ name @ '' test both' to run a self-test.''"

definition speak_help :: "session \<Rightarrow> session" where
  "speak_help s = speak (help_message (assistant_name s)) s"

definition wake_exit :: "session \<Rightarrow> session" where
  "wake_exit s =
     (let s = s\<lparr>confirm_mode := Some ''exit''\<rparr>;
          s = print_buf ''[CONFIRM] Exit voice shell? Say yes or no.'' s
      in speak ''Do you want to exit the voice shell? Say yes or no.'' s)"

definition wake_stop_listening :: "session \<Rightarrow> session" where
  "wake_stop_listening s =
     (let s = s\<lparr>listening := False\<rparr>;
          s = print_buf ''[VOICE] Stop listening requested.'' s
      in guided_speak ''Stopping listening.'' s)"

definition wake_listen :: "env \<Rightarrow> session \<Rightarrow> session" where
  "wake_listen e s = guided_speak ''Listening enabled.'' (init_stt e s)"

definition clamp_speed :: "rat \<Rightarrow> rat" where
  "clamp_speed val = max TTS_SPEED_MIN (min TTS_SPEED_MAX val)"

definition announce_speed :: "env \<Rightarrow> session \<Rightarrow> session" where
  "announce_speed e s =
     (let s = print_buf (''[VOICE] TTS speed set to '' @ fmt_2f e (tts_speed s) @ ''x'') s
      in guided_speak (''Speaking speed set to '' @ fmt_2f e (tts_speed s) @ '' times normal.'') s)"

definition wake_speed :: "env \<Rightarrow> string list \<Rightarrow> session \<Rightarrow> session" where
  "wake_speed e tokens s =
     (if length tokens = 1
      then
        (let s = print_buf (''[VOICE] Current TTS speed: '' @ fmt_2f e (tts_speed s) @ ''x'') s
         in guided_speak (''My speaking speed is '' @ fmt_2f e (tts_speed s)
                          @ '' times normal.'') s)
      else
        (let arg = tokens ! 1 in
         if arg \<in> {''increase'', ''up'', ''faster''}
         then announce_speed e (s\<lparr>tts_speed := min TTS_SPEED_MAX (tts_speed s + TTS_SPEED_STEP)\<rparr>)
         else if arg \<in> {''decrease'', ''down'', ''slower''}
         then announce_speed e (s\<lparr>tts_speed := max TTS_SPEED_MIN (tts_speed s - TTS_SPEED_STEP)\<rparr>)
         else
           (case parse_float e arg of
              Some val \<Rightarrow> announce_speed e (s\<lparr>tts_speed := clamp_speed val\<rparr>)
            | None \<Rightarrow>
                (let s = print_buf (''[VOICE] Could not parse speed; ''
                                    @ ''use a number like 1.0, 1.2 or say 'speed increase'.'') s
                 in guided_speak ''I did not understand that speed value.'' s))))"

definition wake_color :: "env \<Rightarrow> string list \<Rightarrow> session \<Rightarrow> session" where
  "wake_color e tokens s =
     (let word = tokens ! 1 in
      if word \<in> {''on'', ''enable'', ''enabled'', ''fancy''}
      then
        (if colorama_available e
         then
           (let s = s\<lparr>use_color := True\<rparr>;
                s = print_buf ''[VOICE] Fancy colored output enabled.'' s
            in guided_speak ''Fancy colored output enabled.'' s)
         else print_buf ''[VOICE] Colorama not available; cannot enable fancy mode.'' s)
      else if word \<in> {''off'', ''disable'', ''disabled'', ''plain''}
      then
        (let s = s\<lparr>use_color := False\<rparr>;
             s = print_buf ''[VOICE] Fancy colored output disabled.'' s
         in guided_speak ''Fancy colored output disabled.'' s)
      else s)"

definition wake_debug :: "string list \<Rightarrow> session \<Rightarrow> session" where
  "wake_debug tokens s =
     (let word = tokens ! 1 in
      if word \<in> {''on'', ''enable''}
      then
        (let s = s\<lparr>debug_enabled := True, logger_enable_debug := True\<rparr>;
             s = print_buf ''[VOICE] Debug logging enabled.'' s
         in guided_speak ''Debug logging is on.'' s)
      else if word \<in> {''off'', ''disable''}
      then
        (let s = s\<lparr>debug_enabled := False, logger_enable_debug := False\<rparr>;
             s = print_buf ''[VOICE] Debug logging disabled.'' s
         in guided_speak ''Debug logging is off.'' s)
      else s)"

definition wake_save_recordings :: "session \<Rightarrow> session" where
  "wake_save_recordings s =
     (let state = (if save_recordings s then ''currently saving'' else ''currently not saving'');
          s = s\<lparr>confirm_mode := Some ''save_recordings''\<rparr>;
          msg = ''Save recordings is '' @ state
                @ ''. Would you like to enable saving recordings? Say yes or no.'';
          s = print_buf (''[CONFIRM] '' @ msg) s
      in guided_speak msg s)"

definition wake_log :: "session \<Rightarrow> session" where
  "wake_log s =
     (let state = (if save_prompts s then ''currently logging prompts and responses''
                   else ''currently not logging prompts and responses'');
          s = s\<lparr>confirm_mode := Some ''save_prompts''\<rparr>;
          msg = ''Logging is '' @ state @ ''. ''
                @ ''Would you like to enable logging prompts and responses? Say yes or no.'';
          s = print_buf (''[CONFIRM] '' @ msg) s
      in guided_speak msg s)"

definition wake_save :: "session \<Rightarrow> session" where
  "wake_save s =
     (let s = s\<lparr>confirm_mode := Some ''save_settings''\<rparr>;
          msg = ''Save current settings so they load automatically next time? Say yes or no.'';
          s = print_buf (''[CONFIRM] '' @ msg) s
      in guided_speak msg s)"

definition wake_rename :: "env \<Rightarrow> string list \<Rightarrow> session \<Rightarrow> session" where
  "wake_rename e tokens s =
     (let new_name = py_strip (py_join '' '' (drop 1 tokens)) in
      if new_name = [] then print_buf ''[VOICE] Please provide a name to rename to.'' s
      else
        (let s = s\<lparr>assistant_name := new_name\<rparr>;
             s = profile_add_aliases ''wake'' [new_name] s;
             s = profile_save e s;
             s = print_buf (''[VOICE] Assistant renamed to: '' @ assistant_name s) s
         in guided_speak (''You can now call me '' @ assistant_name s @ ''.'') s))"

definition wake_run :: "env \<Rightarrow> session \<Rightarrow> session" where
  "wake_run e s =
     (if prompt_text s = []
      then
        (let s = print_buf ''[VOICE] No prompt to run.'' s
         in guided_speak ''There is no prompt to run.'' s)
      else
        (let s = print_buf ''[VOICE] Running prompt via Codex.'' s;
             s = guided_speak ''Running your prompt.'' s;
             s = s\<lparr>pending_shell_explanation := None\<rparr>
         in run_codex_prompt e (prompt_text s) s))"

definition wake_unknown :: "string \<Rightarrow> session \<Rightarrow> session" where
  "wake_unknown cmd s =
     (let s = print_buf (''[VOICE] Unknown '' @ [SQ] @ py_lower (assistant_name s) @ [SQ]
                         @ '' command: '' @ cmd) s
      in guided_speak ''I did not recognize that command.'' s)"

text \<open>\<open>_handle_wake_command\<close>, with the self-test it starts as the parameter
  \<open>self_test\<close>. The closing \<open>_print_status\<close> of its \<open>finally\<close> clause ends every
  branch.\<close>

definition wake_dispatch ::
  "(env \<Rightarrow> string \<Rightarrow> session \<Rightarrow> session) \<Rightarrow> env \<Rightarrow> string list \<Rightarrow> session \<Rightarrow> session" where
  "wake_dispatch self_test e tokens s =
     (if tokens = [] then s
      else
        (let cmd = py_join '' '' tokens;
             head = tokens ! 0
         in print_status
           (if head = ''mode'' \<and> length tokens \<ge> 2 then wake_mode e tokens s
            else if head = ''settings'' then wake_settings e s
            else if head = ''prompt'' then wake_prompt s
            else if head \<in> {''done'', ''enter''} then wake_done s
            else if head = ''reasoning'' \<and> length tokens \<ge> 2 then wake_reasoning e tokens s
            else if head = ''model'' then wake_model tokens s
            else if head = ''buffer'' then wake_buffer tokens s
            else if head = ''history'' then wake_history s
            else if head = ''shell'' \<and> length tokens \<ge> 2 \<and> tokens ! 1 = ''command''
              then wake_shell_command e s
            else if head = ''voice'' \<and> length tokens \<ge> 2 \<and> tokens ! 1 = ''command''
              then wake_voice_command e s
            else if head = ''voice'' \<and> length tokens \<ge> 2 \<and> tokens ! 1 = ''shell''
              then wake_voice_shell e s
            else if head \<in> {''execute'', ''exec''} then wake_execute s
            else if head = ''repeat'' then wake_repeat s
            else if fuzzy_in e head [''respond'', ''response'', ''reply''] default_threshold
              then wake_respond s
            else if head = ''help'' then speak_help s
            else if head = ''exit'' then wake_exit s
            else if head = ''stop'' \<and> length tokens \<ge> 2 \<and> tokens ! 1 = ''listening''
              then wake_stop_listening s
            else if head = ''listen''
                    \<or> (head = ''start'' \<and> length tokens \<ge> 2 \<and> tokens ! 1 = ''listening'')
              then wake_listen e s
            else if head = ''speed'' then wake_speed e tokens s
            else if head \<in> {''color'', ''style'', ''ui''} \<and> length tokens \<ge> 2
              then wake_color e tokens s
            else if head = ''debug'' \<and> length tokens \<ge> 2 then wake_debug tokens s
            else if head = ''save'' \<and> length tokens \<ge> 2 \<and> tokens ! 1 = ''recordings''
              then wake_save_recordings s
            else if head = ''log'' then wake_log s
            else if head = ''save'' \<and> length tokens = 1 then wake_save s
            else if head = ''rename'' \<and> length tokens \<ge> 2 then wake_rename e tokens s
            else if head = ''run'' then wake_run e s
            else if head = ''test'' \<and> length tokens \<ge> 2
                    \<and> tokens ! 1 \<in> {''voice'', ''shell'', ''both''}
              then self_test e (tokens ! 1) s
            else if head = ''self'' \<and> length tokens \<ge> 2
                    \<and> tokens ! 1 \<in> {''directed'', ''direct''}
              then self_test e ''both'' s
            else wake_unknown cmd s)))"

text \<open>\<open>_run_self_test\<close>, with the command handler it exercises as the parameter
  \<open>handle\<close>. Its own reports go to the console only.\<close>

definition run_self_test_with ::
  "(env \<Rightarrow> string list \<Rightarrow> session \<Rightarrow> session) \<Rightarrow> env \<Rightarrow> string \<Rightarrow> session \<Rightarrow> session" where
  "run_self_test_with handle e mode s =
     (let mode = py_lower mode;
          s = guided_speak (''Starting self test for '' @ mode @ '' systems. ''
                 @ ''I will not run any operating system commands without your confirmation.'') s;
          s = (if mode \<in> {''voice'', ''both''}
               then
                 (let s = handle e [''settings''] s;
                      s = handle e [''prompt''] s;
                      s = s\<lparr>prompt_text := prompt_text s @ '' self-test prompt fragment''\<rparr>;
                      s = handle e [''done''] s;
                      s = handle e [''mode'', ''guided''] s;
                      s = handle e [''mode'', ''unguided''] s;
                      s = handle e [''speed'', ''1''] s;
                      s = handle e [''speed'', ''increase''] s
                  in s)
               else s);
          s = (if mode \<in> {''shell'', ''both''}
               then
                 (let s = s\<lparr>terminal_buffer :=
                              terminal_buffer s @ [''echo 'hello from self-test'' @ [SQ]]\<rparr>;
                      s = s\<lparr>terminal_buffer := terminal_buffer s @ [''ls -la'']\<rparr>;
                      old_prompt = prompt_text s;
                      s = s\<lparr>prompt_text := ''Summarize and suggest next maintenance command.''\<rparr>;
                      s = voice_shell_request e s;
                      s = s\<lparr>prompt_text := old_prompt\<rparr>
                  in s)
               else s);
          stt_ok = (sounddevice_available e \<and> vosk_loaded s);
          tts_ok = (tts_loaded s \<and> sounddevice_available e);
          log_ok = (logger_enable_debug s \<or> logger_enable_session_log s)
      in if guided_mode s
         then speak (py_join '' ''
                ([''Self test finished.'']
                 @ (if \<not> stt_ok then [''Speech recognition is not fully available.''] else [])
                 @ (if \<not> tts_ok then [''Speech output is not fully available.''] else [])
                 @ (if \<not> log_ok then [''Logging is currently limited.''] else [])
                 @ (if stt_ok \<and> tts_ok then [''Core voice pipeline appears healthy.''] else []))) s
         else s)"

text \<open>The self-test only issues commands that start no further self-test, so the knot
  is tied in two steps: the handler without self-test serves the self-test, and the
  handler proper starts that self-test (lemma \<open>run_self_test_unfold\<close> below).\<close>

definition handle_wake_command_plain :: "env \<Rightarrow> string list \<Rightarrow> session \<Rightarrow> session" where
  "handle_wake_command_plain = wake_dispatch (\<lambda>e mode s. s)"

definition run_self_test :: "env \<Rightarrow> string \<Rightarrow> session \<Rightarrow> session" where
  "run_self_test = run_self_test_with handle_wake_command_plain"

definition handle_wake_command :: "env \<Rightarrow> string list \<Rightarrow> session \<Rightarrow> session" where
  "handle_wake_command = wake_dispatch run_self_test"

section \<open>The line shell: typed commands\<close>

text \<open>\<open>input()\<close> takes the next line of standard input and raises \<open>EOFError\<close> when
  there is none. The functions that can be left by that exception return a flag beside
  the state: \<open>True\<close> when the exception is on its way to the caller, the state being the
  one reached when it was raised.\<close>

definition read_input :: "session \<Rightarrow> string option \<times> session" where
  "read_input s =
     (case stdin s of [] \<Rightarrow> (None, s) | a # rest \<Rightarrow> (Some a, s\<lparr>stdin := rest\<rparr>))"

definition is_yes_answer :: "string \<Rightarrow> bool" where
  "is_yes_answer a \<longleftrightarrow> py_lower (py_strip a) \<in> {''y'', ''yes'', ''confirm''}"

definition typed_guided :: "bool \<Rightarrow> session \<Rightarrow> session" where
  "typed_guided on s =
     (let s = s\<lparr>guided_mode := on\<rparr>;
          s = print_buf (if on then ''[CMD] Guided mode enabled.''
                         else ''[CMD] Guided mode disabled.'') s
      in print_status s)"

definition typed_debug :: "session \<Rightarrow> session" where
  "typed_debug s =
     (let s = s\<lparr>debug_enabled := \<not> debug_enabled s\<rparr>;
          s = s\<lparr>logger_enable_debug := debug_enabled s\<rparr>
      in print_buf (''[CMD] Debug logging ''
                    @ (if debug_enabled s then ''enabled'' else ''disabled'') @ ''.'') s)"

definition typed_saveprompts :: "bool \<Rightarrow> session \<Rightarrow> session" where
  "typed_saveprompts on s =
     (let s = s\<lparr>save_prompts := on, logger_enable_session_log := on\<rparr>
      in print_buf (if on then ''[CMD] Prompt/response logging enabled.''
                    else ''[CMD] Prompt/response logging disabled.'') s)"

definition typed_recordspeech :: "bool \<Rightarrow> session \<Rightarrow> session" where
  "typed_recordspeech on s =
     (let s = s\<lparr>save_recordings := on\<rparr>
      in print_buf (if on then ''[CMD] Recording of speech responses enabled.''
                    else ''[CMD] Recording of speech responses disabled.'') s)"

definition typed_recordings :: "session \<Rightarrow> session" where
  "typed_recordings s =
     (let s = s\<lparr>save_recordings := \<not> save_recordings s\<rparr>
      in print_buf (''[CMD] Save recordings: '' @ on_off (save_recordings s) @ ''.'') s)"

definition typed_logprompts :: "session \<Rightarrow> session" where
  "typed_logprompts s =
     (let s = s\<lparr>save_prompts := \<not> save_prompts s\<rparr>;
          s = s\<lparr>logger_enable_session_log := save_prompts s\<rparr>
      in print_buf (''[CMD] Log prompts/responses: '' @ on_off (save_prompts s) @ ''.'') s)"

definition typed_voice :: "env \<Rightarrow> string list \<Rightarrow> session \<Rightarrow> session" where
  "typed_voice e parts s =
     (case parse_int e (parts ! 1) of
        None \<Rightarrow> print_buf ''[CMD] Usage: v-voice N (1-based index)'' s
      | Some n \<Rightarrow>
          (let idx = n - 1 in
           if idx < 0 then print_buf ''[CMD] Usage: v-voice N (1-based index)'' s
           else print_buf (''[CMD] Voice index set to '' @ str_int (idx + 1) @ ''.'')
                  (s\<lparr>voice_index := idx\<rparr>)))"

definition typed_rename :: "env \<Rightarrow> string list \<Rightarrow> session \<Rightarrow> session" where
  "typed_rename e parts s =
     (let new_name = strip_chars (\<lambda>c. c = DQ) (py_strip (py_join '' '' (drop 1 parts))) in
      if new_name = [] then print_buf ''[CMD] Usage: v-rename <name>'' s
      else
        (let s = s\<lparr>assistant_name := new_name\<rparr>;
             s = profile_add_aliases ''wake'' [new_name] s;
             s = profile_save e s
         in print_buf (''[CMD] Assistant renamed to: '' @ assistant_name s) s))"

definition typed_model :: "string list \<Rightarrow> session \<Rightarrow> session" where
  "typed_model parts s =
     (let model = parts ! 1;
          s = s\<lparr>current_model := model\<rparr>;
          s = print_buf (''[CMD] Model set to: '' @ model) s
      in print_status s)"

definition typed_reasoning :: "string list \<Rightarrow> session \<Rightarrow> session" where
  "typed_reasoning parts s =
     (let s = s\<lparr>current_reasoning := parts ! 1\<rparr>;
          s = print_buf (''[CMD] Reasoning set to: '' @ current_reasoning s) s
      in print_status s)"

definition typed_prompt :: "session \<Rightarrow> session" where
  "typed_prompt s =
     (let s = s\<lparr>prompt_capture := True\<rparr>;
          s = print_buf ''[CMD] Prompt editing enabled. Current prompt is:'' s;
          s = print_buf (if prompt_text s = [] then ''<empty>'' else prompt_text s) s;
          (answer, s) = read_input s;
          typed = or_empty answer;
          s = (if py_strip typed \<noteq> []
               then print_buf (''[CMD] Prompt set to: '' @ typed) (s\<lparr>prompt_text := typed\<rparr>)
               else s)
      in print_status s)"

definition typed_clear :: "session \<Rightarrow> session" where
  "typed_clear s =
     (let s = s\<lparr>terminal_buffer := []\<rparr>;
          s = print_buf ''[CMD] Buffer cleared.'' s;
          s = s\<lparr>buffer_anchor_index := int (length (terminal_buffer s))\<rparr>;
          s = s\<lparr>buffer_last_action_index := int (length (terminal_buffer s))\<rparr>
      in print_status s)"

definition typed_repeat :: "session \<Rightarrow> session" where
  "typed_repeat s =
     (if prompt_text s = [] then print_buf ''[CMD] No prompt to repeat.'' s
      else speak (prompt_text s) (print_buf (''[PROMPT] '' @ prompt_text s) s))"

definition typed_respond :: "session \<Rightarrow> session" where
  "typed_respond s =
     (let expl = (if truthy (pending_shell_explanation s) then pending_shell_explanation s
                  else last_codex_response s)
      in if \<not> truthy expl then print_buf ''[CMD] No response available.'' s
         else speak (or_empty expl) (print_buf (''[RESP] '' @ or_empty expl) s))"

definition typed_fancy_on :: "env \<Rightarrow> session \<Rightarrow> session" where
  "typed_fancy_on e s =
     (if colorama_available e
      then print_buf ''[CMD] Fancy colored output enabled.'' (s\<lparr>use_color := True\<rparr>)
      else print_buf ''[CMD] Colorama not available; cannot enable fancy mode.'' s)"

definition typed_fancy_off :: "session \<Rightarrow> session" where
  "typed_fancy_off s = print_buf ''[CMD] Fancy colored output disabled.'' (s\<lparr>use_color := False\<rparr>)"

definition typed_speed :: "env \<Rightarrow> string list \<Rightarrow> session \<Rightarrow> session" where
  "typed_speed e parts s =
     (case parse_float e (parts ! 1) of
        Some val \<Rightarrow>
          (let s = s\<lparr>tts_speed := clamp_speed val\<rparr>;
               s = print_buf (''[CMD] TTS speed set to '' @ fmt_2f e (tts_speed s) @ ''x'') s
           in print_status s)
      | None \<Rightarrow> print_buf ''[CMD] Usage: v-speed 1.0 (range 0.5 - 2.0)'' s)"

definition typed_buffer :: "string list \<Rightarrow> session \<Rightarrow> session" where
  "typed_buffer parts s =
     (if length parts = 1
      then print_buf (''[CMD] Buffer mode: '' @ buffer_mode s
                      @ '' (anchor='' @ str_int (buffer_anchor_index s)
                      @ '', last_action='' @ str_int (buffer_last_action_index s) @ '')'') s
      else
        (let sub = parts ! 1;
             s = (if sub = ''clear''
                  then
                    (let s = s\<lparr>buffer_mode := ''anchor''\<rparr>;
                         s = s\<lparr>buffer_anchor_index := int (length (terminal_buffer s))\<rparr>
                     in print_buf (''[CMD] Buffer anchor set; ''
                                   @ ''future shell commands will use history after this point.'') s)
                  else if sub = ''session''
                  then print_buf ''[CMD] Buffer mode set to session (full history for this run).''
                         (s\<lparr>buffer_mode := ''session''\<rparr>)
                  else if sub = ''last''
                  then print_buf (''[CMD] Buffer mode set to last ''
                                  @ ''(since last Codex output or executed command).'')
                         (s\<lparr>buffer_mode := ''last''\<rparr>)
                  else print_buf ''[CMD] Usage: v-buffer clear|session|last'' s)
         in print_status s))"

text \<open>\<open>v-save\<close> and \<open>v-exit\<close> ask on the spot and read the answer from standard
  input.\<close>

definition typed_save :: "env \<Rightarrow> session \<Rightarrow> bool \<times> session" where
  "typed_save e s =
     (let s = print_buf (''[CONFIRM] Save current settings to disk ''
                         @ ''so they load next time? (y/N)? '') s;
          (answer, s) = read_input s
      in case answer of
           None \<Rightarrow> (True, s)
         | Some ans \<Rightarrow>
             if is_yes_answer ans then (False, save_settings e s)
             else (False, print_buf ''[CONFIRM] Settings save cancelled.'' s))"

definition typed_exit :: "session \<Rightarrow> bool \<times> session" where
  "typed_exit s =
     (let s = print_buf ''[CONFIRM] Exit voice shell? (y/N)? '' s;
          (answer, s) = read_input s
      in case answer of
           None \<Rightarrow> (True, s)
         | Some ans \<Rightarrow>
             if is_yes_answer ans
             then (False, print_buf ''[SHELL] Exit requested.''
                            (s\<lparr>exit_requested := True, listening := False\<rparr>))
             else (False, print_buf ''[CONFIRM] Exit cancelled.'' s))"

text \<open>\<open>_handle_typed_voice_command\<close>. The branch of \<open>v-exec\<close> runs the pending command
  after a typed yes; a pending \<open>v-\<close> command is handled by the function itself, each
  round reading one more answer.\<close>

function handle_typed_voice_command :: "env \<Rightarrow> string \<Rightarrow> session \<Rightarrow> bool \<times> session" where
  "handle_typed_voice_command e line s =
     (let cmd = py_strip (drop 2 line) in
      if cmd = [] then (False, s)
      else
        (let parts = py_split cmd;
             key = parts ! 0
         in
           if key = ''help'' then (False, print_banner e s)
           else if key = ''settings'' then (False, print_settings e s)
           else if key = ''guided-on'' then (False, typed_guided True s)
           else if key = ''guided-off'' then (False, typed_guided False s)
           else if key = ''debug'' then (False, typed_debug s)
           else if key = ''saveprompts-on'' then (False, typed_saveprompts True s)
           else if key = ''saveprompts-off'' then (False, typed_saveprompts False s)
           else if key = ''recordspeech-on'' then (False, typed_recordspeech True s)
           else if key = ''recordspeech-off'' then (False, typed_recordspeech False s)
           else if key = ''recordings'' then (False, typed_recordings s)
           else if key = ''logprompts'' then (False, typed_logprompts s)
           else if key = ''voice'' \<and> length parts \<ge> 2 then (False, typed_voice e parts s)
           else if key = ''rename'' \<and> length parts \<ge> 2 then (False, typed_rename e parts s)
           else if key = ''model'' \<and> length parts \<ge> 2 then (False, typed_model parts s)
           else if key = ''reasoning'' \<and> length parts \<ge> 2 then (False, typed_reasoning parts s)
           else if key \<in> {''shell'', ''command''} then (False, voice_shell_request e s)
           else if key \<in> {''voicecmd'', ''voice-command'', ''voicecommand''}
             then (False, voice_app_command_request e s)
           else if key = ''prompt'' then (False, typed_prompt s)
           else if key = ''exec'' then
             (if \<not> truthy (pending_shell_command s)
              then (False, print_buf ''[CMD] No pending command.'' s)
              else
                (case stdin s of
                   [] \<Rightarrow>
                     (True, print_buf (''[CONFIRM] Execute: '' @ or_empty (pending_shell_command s)
                                       @ '' (y/N)? '') s)
                 | ans # rest \<Rightarrow>
                     (let s1 = (print_buf (''[CONFIRM] Execute: ''
                                           @ or_empty (pending_shell_command s) @ '' (y/N)? '') s)
                                \<lparr>stdin := rest\<rparr>
                      in if is_yes_answer ans
                         then
                           (let cmd_to_run = py_strip (or_empty (pending_shell_command s1));
                                s2 = print_buf (''[EXEC] Running: '' @ cmd_to_run) s1;
                                (raised, s3) =
                                  (if startswith cmd_to_run ''v-''
                                   then handle_typed_voice_command e cmd_to_run s2
                                   else
                                     (let tokens = py_split cmd_to_run in
                                      if tokens \<noteq> []
                                         \<and> py_lower (tokens ! 0) = py_lower (assistant_name s2)
                                      then (False, handle_wake_command e
                                                     (tokenize (py_join '' '' (drop 1 tokens))) s2)
                                      else (False, run_shell_command e cmd_to_run s2)))
                            in if raised then (True, s3)
                               else (False, s3\<lparr>pending_shell_command := None,
                                               pending_shell_explanation := None\<rparr>))
                         else (False, print_buf ''[CONFIRM] Cancelled.'' s1))))
           else if key = ''clear'' then (False, typed_clear s)
           else if key = ''repeat'' then (False, typed_repeat s)
           else if key = ''respond'' then (False, typed_respond s)
           else if key = ''fancy-on'' then (False, typed_fancy_on e s)
           else if key = ''fancy-off'' then (False, typed_fancy_off s)
           else if key = ''speed'' \<and> length parts \<ge> 2 then (False, typed_speed e parts s)
           else if key = ''buffer'' then (False, typed_buffer parts s)
           else if key = ''history'' then (False, s)
           else if key = ''listen'' then (False, init_stt e s)
           else if key = ''save'' then typed_save e s
           else if key = ''exit'' then typed_exit s
           else (False, print_buf (''[CMD] Unknown v- command: '' @ cmd) s)))"
  by pat_completeness auto
termination
  by (relation "measure (\<lambda>(e, line, s). length (stdin s))") (auto simp: print_buf_def)

declare handle_typed_voice_command.simps [simp del]

section \<open>The line shell: confirmation and utterances\<close>

text \<open>\<open>_apply_confirm_decision\<close>.\<close>

definition apply_confirm_decision :: "env \<Rightarrow> bool \<Rightarrow> session \<Rightarrow> bool \<times> session" where
  "apply_confirm_decision e accepted s =
     (let mode = confirm_mode s;
          s = s\<lparr>confirm_mode := None\<rparr>
      in
        if \<not> truthy mode then (False, s)
        else if \<not> accepted
        then
          (let s = print_buf ''[CONFIRM] Cancelled.'' s;
               s = guided_speak ''Cancelled.'' s
           in (False, print_status s))
        else if mode = Some ''exec'' \<and> truthy (pending_shell_command s)
        then
          (let cmd = py_strip (or_empty (pending_shell_command s));
               s = print_buf (''[EXEC] Running: '' @ cmd) s;
               (raised, s) =
                 (if startswith cmd ''v-'' then handle_typed_voice_command e cmd s
                  else
                    (let tokens = py_split cmd in
                     if tokens \<noteq> [] \<and> py_lower (tokens ! 0) = py_lower (assistant_name s)
                     then (False, handle_wake_command e
                                    (tokenize (py_join '' '' (drop 1 tokens))) s)
                     else (False, run_shell_command e cmd s)))
           in if raised then (True, s)
              else
                (let s = s\<lparr>pending_shell_command := None, pending_shell_explanation := None\<rparr>;
                     s = guided_speak ''Executed the recommended command.'' s
                 in (False, print_status s)))
        else if mode = Some ''clear''
        then
          (let s = s\<lparr>terminal_buffer := []\<rparr>;
               s = print_buf ''[SHELL] Buffer cleared.'' s;
               s = guided_speak ''Cleared the buffer.'' s
           in (False, print_status s))
        else if mode = Some ''exit''
        then
          (let s = s\<lparr>exit_requested := True\<rparr>;
               s = s\<lparr>listening := False\<rparr>;
               s = print_buf ''[SHELL] Exit confirmed.'' s;
               s = guided_speak ''Exiting voice shell.'' s
           in (False, print_status s))
        else if mode = Some ''save_settings''
        then
          (let s = save_settings e s;
               s = guided_speak ''Settings saved.'' s
           in (False, print_status s))
        else if mode = Some ''save_recordings''
        then
          (let s = s\<lparr>save_recordings := True\<rparr>;
               s = print_buf ''[VOICE] Saving recordings enabled.'' s;
               s = guided_speak ''I will save future speech recordings.'' s
           in (False, print_status s))
        else if mode = Some ''save_prompts''
        then
          (let s = s\<lparr>save_prompts := True\<rparr>;
               s = s\<lparr>logger_enable_session_log := True\<rparr>;
               s = print_buf ''[VOICE] Prompt and response logging enabled.'' s;
               s = guided_speak ''I will log prompts and responses.'' s
           in (False, print_status s))
        else (False, print_status s))"

text \<open>\<open>_handle_confirm_voice\<close>.\<close>

definition handle_confirm_voice :: "env \<Rightarrow> string list \<Rightarrow> session \<Rightarrow> bool \<times> session" where
  "handle_confirm_voice e tokens s =
     (let yes_words = get_yes_variants s;
          no_words = get_no_variants s;
          head = tokens ! 0
      in if fuzzy_in e head yes_words default_threshold then apply_confirm_decision e True s
         else if fuzzy_in e head no_words default_threshold then apply_confirm_decision e False s
         else (False, guided_speak ''Please say yes or no.'' s))"

text \<open>\<open>_handle_voice_text\<close>.\<close>

definition handle_voice_text :: "env \<Rightarrow> string \<Rightarrow> session \<Rightarrow> bool \<times> session" where
  "handle_voice_text e text s =
     (let tokens = tokenize text in
      if tokens = [] then (False, s)
      else if truthy (confirm_mode s) then handle_confirm_voice e tokens s
      else
        (let wake_variants = get_wake_variants s;
             first = tokens ! 0
         in
           if prompt_capture s \<and> \<not> fuzzy_in e first wake_variants default_threshold
           then
             (if length tokens = 1 \<and> tokens ! 0 \<in> {''done'', ''enter''}
              then
                (let s = s\<lparr>prompt_capture := False\<rparr>;
                     s = print_buf ''[VOICE] Prompt editing finished.'' s;
                     s = guided_speak ''Prompt editing finished.'' s
                 in (False, print_status s))
              else
                (let fragment = py_join '' '' tokens;
                     s = (if prompt_text s \<noteq> [] then s\<lparr>prompt_text := prompt_text s @ '' ''\<rparr>
                          else s);
                     s = s\<lparr>prompt_text := prompt_text s @ fragment\<rparr>;
                     s = print_buf (''[PROMPT+] '' @ fragment) s
                 in (False, print_status s)))
           else if fuzzy_in e first wake_variants default_threshold
           then
             (let rest = drop 1 tokens in
              if rest = []
              then
                (let s = guided_speak (''Yes? I'm '' @ assistant_name s @ ''.'') s
                 in (False, print_status s))
              else (False, handle_wake_command e rest s))
           else (False, s)))"

text \<open>\<open>_handle_vosk_result\<close>, from the recognised text on: empty and filler transcripts
  are dropped.\<close>

definition handle_vosk_result :: "env \<Rightarrow> string \<Rightarrow> session \<Rightarrow> bool \<times> session" where
  "handle_vosk_result e recognised s =
     (let text = py_strip recognised in
      if text = [] then (False, s)
      else if py_lower text \<in> {''huh'', ''uh'', ''um''} then (False, s)
      else handle_voice_text e text s)"

section \<open>The line shell: main loop\<close>

datatype loop_control = Continue | Break | Crash

text \<open>The branch of the typed line \<open>clear\<close>: the screen is cleared by the operating
  system, the buffer is emptied and both indices are reset.\<close>

definition clear_screen_and_buffer :: "session \<Rightarrow> session" where
  "clear_screen_and_buffer s =
     (let s = s\<lparr>shell_runs := shell_runs s @ [''clear'']\<rparr>;
          s = s\<lparr>terminal_buffer := []\<rparr>;
          s = print_buf ''[SHELL] Screen and buffer cleared.'' s;
          s = s\<lparr>buffer_anchor_index := int (length (terminal_buffer s))\<rparr>;
          s = s\<lparr>buffer_last_action_index := int (length (terminal_buffer s))\<rparr>
      in print_status s)"

text \<open>One round of the loop of \<open>run\<close>. \<open>Crash\<close> is an \<open>EOFError\<close> that leaves
  \<open>run\<close>.\<close>

definition run_iteration :: "env \<Rightarrow> session \<Rightarrow> loop_control \<times> session" where
  "run_iteration e s =
     (if exit_requested s then (Break, print_buf ''[SHELL] Exiting voice shell.'' s)
      else
        (case stdin s of
           [] \<Rightarrow> (Break, print_buf ''[SHELL] EOF received, exiting.'' (print_buf [] s))
         | line # rest \<Rightarrow>
             (let s = s\<lparr>stdin := rest\<rparr>;
                  stripped = py_strip line
              in
                if truthy (confirm_mode s)
                   \<and> py_lower stripped \<in> {''yes'', ''y'', ''confirm'', ''no'', ''n'', ''cancel''}
                then
                  (let accepted = (py_lower stripped \<in> {''yes'', ''y'', ''confirm''});
                       (raised, s) = apply_confirm_decision e accepted s
                   in (if raised then Crash else Continue, s))
                else if exit_requested s
                then (Break, print_buf ''[SHELL] Exiting voice shell.'' s)
                else if stripped = []
                then
                  (if prompt_capture s
                   then
                     (let s = s\<lparr>prompt_capture := False\<rparr>;
                          s = print_buf ''[SHELL] Prompt editing finished (Enter).'' s;
                          s = guided_speak ''Prompt editing finished.'' s
                      in (Continue, print_status s))
                   else (Continue, s))
                else if startswith stripped ''v-''
                then
                  (let (raised, s) = handle_typed_voice_command e stripped s
                   in (if raised then Crash else Continue, s))
                else if stripped \<in> {''exit'', ''quit''}
                then
                  (let s = print_buf ''[CONFIRM] Exit voice shell? (y/N)? '' s;
                       (answer, s) = read_input s
                   in case answer of
                        None \<Rightarrow> (Crash, s)
                      | Some ans \<Rightarrow>
                          if is_yes_answer ans then (Break, print_buf ''[SHELL] Goodbye.'' s)
                          else (Continue, print_buf ''[CONFIRM] Exit cancelled.'' s))
                else if stripped = ''clear'' then (Continue, clear_screen_and_buffer s)
                else (Continue, run_shell_command e stripped s))))"

section \<open>The line shell: reachable states\<close>

text \<open>What \<open>__init__\<close> fixes: both indices at 0, nothing pending, no confirmation, no
  prompt, nothing run or spoken yet. The settings (file and command line), the alias
  profile, the notices printed while the libraries load, whether the recogniser already
  listens, and the typed lines to come are left open.\<close>

definition initial :: "session \<Rightarrow> bool" where
  "initial s \<longleftrightarrow>
     buffer_anchor_index s = 0 \<and> buffer_last_action_index s = 0
     \<and> pending_shell_command s = None \<and> pending_shell_explanation s = None
     \<and> last_codex_prompt s = None \<and> last_codex_response s = None
     \<and> prompt_text s = [] \<and> \<not> prompt_capture s \<and> confirm_mode s = None
     \<and> \<not> exit_requested s \<and> spoken s = [] \<and> shell_runs s = [] \<and> proc_calls s = 0"

text \<open>A step handles one finalised utterance to its end (the recogniser's loop catches
  what the handling raises) or runs one round of the typed loop.\<close>

inductive reachable :: "env \<Rightarrow> session \<Rightarrow> bool" for e :: env where
  reach_init: "initial s \<Longrightarrow> reachable e s"
| reach_voice: "reachable e s \<Longrightarrow> reachable e (snd (handle_vosk_result e recognised s))"
| reach_typed: "reachable e s \<Longrightarrow> reachable e (snd (run_iteration e s))"

section \<open>Session invariants\<close>

text \<open>The two indices are offsets into the terminal buffer.\<close>

definition indices_in_buffer :: "session \<Rightarrow> bool" where
  "indices_in_buffer s \<longleftrightarrow>
     0 \<le> buffer_anchor_index s
     \<and> buffer_anchor_index s \<le> int (length (terminal_buffer s))
     \<and> 0 \<le> buffer_last_action_index s
     \<and> buffer_last_action_index s \<le> int (length (terminal_buffer s))"

text \<open>The confirmation reasons that a command of the shell arms.\<close>

definition armed_reasons :: "string set" where
  "armed_reasons = {''exec'', ''exit'', ''save_recordings'', ''save_prompts'', ''save_settings''}"

definition confirm_armed :: "session \<Rightarrow> bool" where
  "confirm_armed s \<longleftrightarrow> (case confirm_mode s of None \<Rightarrow> True | Some r \<Rightarrow> r \<in> armed_reasons)"

text \<open>An explanation is pending only beside a command.\<close>

definition explanation_has_command :: "session \<Rightarrow> bool" where
  "explanation_has_command s \<longleftrightarrow>
     (pending_shell_explanation s \<noteq> None \<longrightarrow> pending_shell_command s \<noteq> None)"

definition session_inv :: "session \<Rightarrow> bool" where
  "session_inv s \<longleftrightarrow> indices_in_buffer s \<and> confirm_armed s \<and> explanation_has_command s"

text \<open>What a command that passes no confirmation may do to the state: the buffer only
  grows, an index moves only to a length the buffer has had since, a confirmation is
  only armed with one of the reasons above, an explanation is never left without its
  command, and the exit flag, the recording and logging switches, the settings file, the
  commands run by the operating system and the unread input stay as they are.\<close>

definition kept :: "session \<Rightarrow> session \<Rightarrow> bool" where
  "kept s s' \<longleftrightarrow>
     prefix (terminal_buffer s) (terminal_buffer s')
     \<and> (buffer_anchor_index s' = buffer_anchor_index s
        \<or> (int (length (terminal_buffer s)) \<le> buffer_anchor_index s'
           \<and> buffer_anchor_index s' \<le> int (length (terminal_buffer s'))))
     \<and> (buffer_last_action_index s' = buffer_last_action_index s
        \<or> (int (length (terminal_buffer s)) \<le> buffer_last_action_index s'
           \<and> buffer_last_action_index s' \<le> int (length (terminal_buffer s'))))
     \<and> (confirm_mode s' = confirm_mode s \<or> confirm_armed s')
     \<and> (explanation_has_command s \<longrightarrow> explanation_has_command s')
     \<and> exit_requested s' = exit_requested s
     \<and> save_recordings s' = save_recordings s
     \<and> save_prompts s' = save_prompts s
     \<and> logger_enable_session_log s' = logger_enable_session_log s
     \<and> settings_file s' = settings_file s
     \<and> shell_runs s' = shell_runs s
     \<and> stdin s' = stdin s"

section \<open>The graphical front end: alias store\<close>

text \<open>\<open>VoiceProfile\<close> of \<open>alice.py\<close>: a target number of samples and, for each word, its
  set of aliases, the time of its last calibration and its stored status (a JSON value
  when loaded from disk; \<open>None\<close> stands for \<open>null\<close>).\<close>

record word_meta =
  aliases :: "string fset"
  last_calibrated :: "string option"
  status :: "string option"

record voice_profile =
  target_samples :: int
  words :: "string \<Rightarrow> word_meta option"

datatype py_error = KeyError

definition new_word :: word_meta where
  "new_word = \<lparr> aliases = {||}, last_calibrated = None, status = Some ''Uncalibrated'' \<rparr>"

text \<open>\<open>ensure_word\<close>.\<close>

definition ensure_word :: "string \<Rightarrow> voice_profile \<Rightarrow> voice_profile" where
  "ensure_word word p =
     (let w = py_lower (py_strip word) in
      if w = [] then p
      else if words p w = None then p\<lparr>words := (words p)(w \<mapsto> new_word)\<rparr>
      else p)"

text \<open>The body of \<open>_compute_status_for_word\<close> once the entry of the word is found.\<close>

definition status_of :: "voice_profile \<Rightarrow> word_meta \<Rightarrow> string" where
  "status_of p meta =
     (let n = int (fcard (aliases meta)) in
      if n = 0 then ''Uncalibrated''
      else if n < target_samples p then ''Partial''
      else if truthy (status meta) then or_empty (status meta)
      else ''Calibrated'')"

text \<open>\<open>_compute_status_for_word\<close>: \<open>self.words[word]\<close> raises \<open>KeyError\<close> for an
  unknown word.\<close>

definition compute_status_for_word :: "voice_profile \<Rightarrow> string \<Rightarrow> py_error + string" where
  "compute_status_for_word p word =
     (case words p word of
        None \<Rightarrow> Inl KeyError
      | Some meta \<Rightarrow> Inr (status_of p meta))"

text \<open>\<open>get_status\<close>: the status is computed, stored and returned.\<close>

definition get_status :: "string \<Rightarrow> voice_profile \<Rightarrow> py_error + (string \<times> voice_profile)" where
  "get_status word p =
     (case words p word of
        None \<Rightarrow> Inl KeyError
      | Some meta \<Rightarrow>
          (let st = status_of p meta
           in Inr (st, p\<lparr>words := (words p)(word \<mapsto> meta\<lparr>status := Some st\<rparr>)\<rparr>)))"

text \<open>\<open>set_target_samples\<close>: the loop recomputes the status of every word; each
  round reads and writes the entry of its own word only.\<close>

definition set_target_samples :: "int \<Rightarrow> voice_profile \<Rightarrow> voice_profile" where
  "set_target_samples target p =
     (if target \<le> 0 then p
      else
        (let p = p\<lparr>target_samples := target\<rparr>
         in p\<lparr>words := (\<lambda>w. map_option (\<lambda>meta. meta\<lparr>status := Some (status_of p meta)\<rparr>)
                                   (words p w))\<rparr>))"

text \<open>\<open>get_aliases\<close>: the aliases in sorted order.\<close>

definition get_aliases :: "voice_profile \<Rightarrow> string \<Rightarrow> string list" where
  "get_aliases p word =
     (let word = py_lower word in
      case words p word of
        None \<Rightarrow> []
      | Some meta \<Rightarrow> sorted_list_of_fset (aliases meta))"

text \<open>The loop of \<open>set_aliases\<close> that cleans the given aliases.\<close>

definition clean_aliases :: "string list \<Rightarrow> string fset" where
  "clean_aliases as = fset_of_list (map py_lower (filter (\<lambda>a. a \<noteq> []) (map py_strip as)))"

text \<open>\<open>set_aliases\<close>; \<open>now\<close> is the time stamp of the call. The word is looked up
  under its lower-cased form, while \<open>ensure_word\<close> enters its trimmed form.\<close>

definition set_aliases ::
  "string \<Rightarrow> string list \<Rightarrow> string \<Rightarrow> voice_profile \<Rightarrow> py_error + voice_profile" where
  "set_aliases word as now p =
     (let word = py_lower word;
          p = ensure_word word p;
          aliases_clean = clean_aliases as
      in case words p word of
           None \<Rightarrow> Inl KeyError
         | Some meta \<Rightarrow>
             (let meta = meta\<lparr>aliases := aliases_clean, last_calibrated := Some now\<rparr>;
                  p = p\<lparr>words := (words p)(word \<mapsto> meta)\<rparr>
              in Inr (p\<lparr>words := (words p)(word \<mapsto> meta\<lparr>status := Some (status_of p meta)\<rparr>)\<rparr>)))"

text \<open>\<open>add_alias\<close>.\<close>

definition add_alias ::
  "string \<Rightarrow> string \<Rightarrow> string \<Rightarrow> voice_profile \<Rightarrow> py_error + voice_profile" where
  "add_alias word alias now p =
     (let word = py_lower word;
          alias = py_strip alias
      in if alias = [] then Inr p
         else
           (let p = ensure_word word p in
            case words p word of
              None \<Rightarrow> Inl KeyError
            | Some meta \<Rightarrow>
                (let meta = meta\<lparr>aliases := finsert (py_lower alias) (aliases meta),
                                  last_calibrated := Some now\<rparr>;
                     p = p\<lparr>words := (words p)(word \<mapsto> meta)\<rparr>
                 in Inr (p\<lparr>words := (words p)(word \<mapsto> meta\<lparr>status := Some (status_of p meta)\<rparr>)\<rparr>))))"

text \<open>\<open>delete_aliases\<close>; \<open>None\<close> stands for the arguments \<open>None\<close> and \<open>"all"\<close>.\<close>

definition delete_aliases :: "string \<Rightarrow> string list option \<Rightarrow> voice_profile \<Rightarrow> voice_profile" where
  "delete_aliases word which p =
     (let word = py_lower word in
      case words p word of
        None \<Rightarrow> p
      | Some meta \<Rightarrow>
          (let meta = (case which of
                         None \<Rightarrow> meta\<lparr>aliases := {||}\<rparr>
                       | Some as \<Rightarrow> meta\<lparr>aliases := aliases meta |-| fset_of_list (map py_lower as)\<rparr>)
           in p\<lparr>words := (words p)(word \<mapsto> meta\<lparr>status := Some (status_of p meta)\<rparr>)\<rparr>))"

section \<open>The graphical front end: fuzzy matching and the clear confirmation\<close>

text \<open>\<open>t.strip(" ,.!?'\"")\<close>.\<close>

definition punct_strip :: "string \<Rightarrow> string" where
  "punct_strip t = strip_chars (\<lambda>c. c \<in> set '' ,.!?'' \<or> c = SQ \<or> c = DQ) t"

text \<open>\<open>_fuzzy\<close>, with the similarity ratio as a parameter.\<close>

definition fuzzy :: "(string \<Rightarrow> string \<Rightarrow> rat) \<Rightarrow> string \<Rightarrow> string list \<Rightarrow> rat \<Rightarrow> bool" where
  "fuzzy r word targets threshold =
     (if word = [] then False
      else
        (let word_norm = punct_strip (py_lower word) in
         if word_norm = [] then False
         else
           (let best = fold (\<lambda>t best.
                         let t_norm = punct_strip (py_lower t) in
                         if t_norm = [] then best
                         else (let ratio = r word_norm t_norm
                               in if ratio > best then ratio else best)) targets 0
            in best \<ge> threshold)))"

text \<open>The state of the window that the clear confirmation reads and writes: the voice
  mode, the three text panes, the settings shown in the controls, the alias store, the
  confirmation dialog, what decides whether a guided remark is spoken, and the texts
  handed to the synthesiser.\<close>

record gui =
  voice_mode :: string
  prompt_pane :: string
  output_pane :: string
  console_pane :: string
  mode_var :: string
  model_var :: string
  reasoning_var :: string
  wake_name_var :: string
  gui_profile :: voice_profile
  clear_confirm_window :: bool
  coqui_available :: bool
  tts_thread_alive :: bool
  tts_paused :: bool
  speech_requests :: "string list"

definition append_console :: "string \<Rightarrow> gui \<Rightarrow> gui" where
  "append_console text g = g\<lparr>console_pane := console_pane g @ text\<rparr>"

definition is_guided :: "gui \<Rightarrow> bool" where
  "is_guided g \<longleftrightarrow> startswith (py_lower (mode_var g)) ''guided''"

text \<open>\<open>_start_tts_from_text\<close>, as far as the request: a text that is empty after
  trimming is refused with a console notice; otherwise the text is handed to the
  synthesiser, whose loading and playing are not followed further.\<close>

definition start_tts_from_text :: "string \<Rightarrow> gui \<Rightarrow> gui" where
  "start_tts_from_text text g =
     (let text = py_strip text in
      if text = [] then append_console (''[VOICE] Nothing to read aloud.'' @ [LF]) g
      else g\<lparr>speech_requests := speech_requests g @ [text]\<rparr>)"

text \<open>\<open>_guided_say\<close>.\<close>

definition guided_say :: "string \<Rightarrow> gui \<Rightarrow> gui" where
  "guided_say text g =
     (if text = [] \<or> \<not> is_guided g then g
      else if \<not> coqui_available g then g
      else if tts_thread_alive g then g
      else if tts_paused g then g
      else start_tts_from_text text g)"

text \<open>\<open>_do_clear\<close> and \<open>_finish_clear\<close>.\<close>

definition do_clear :: "gui \<Rightarrow> gui" where
  "do_clear g =
     append_console (''[VOICE] Cleared all panes.'' @ [LF])
       (g\<lparr>prompt_pane := [], output_pane := [], console_pane := []\<rparr>)"

definition finish_clear :: "bool \<Rightarrow> gui \<Rightarrow> gui" where
  "finish_clear confirmed g =
     (let g = (if confirmed then guided_say ''Cleared all panes.'' (do_clear g)
               else guided_say ''Clear cancelled.''
                      (append_console (''[VOICE] Clear cancelled.'' @ [LF]) g));
          g = g\<lparr>voice_mode := ''idle''\<rparr>
      in g\<lparr>clear_confirm_window := False\<rparr>)"

definition FILLERS :: "string set" where
  "FILLERS = {''huh'', ''uh'', ''um'', ''erm'', ''mm'', ''mmm'', ''uhh'', ''uhm''}"

definition is_filler :: "string \<Rightarrow> bool" where
  "is_filler t \<longleftrightarrow> punct_strip (py_lower t) \<in> FILLERS"

text \<open>The two loops of \<open>_handle_voice_text\<close> that drop the fillers at both ends.\<close>

definition drop_fillers :: "string list \<Rightarrow> string list" where
  "drop_fillers raw_tokens = rev (dropWhile is_filler (rev (dropWhile is_filler raw_tokens)))"

definition gui_yes_targets :: "gui \<Rightarrow> string list" where
  "gui_yes_targets g =
     [''confirm'', ''yes'', ''yeah'', ''yep'']
     @ (if words (gui_profile g) ''yes'' \<noteq> None then get_aliases (gui_profile g) ''yes'' else [])"

definition gui_no_targets :: "gui \<Rightarrow> string list" where
  "gui_no_targets g =
     [''cancel'', ''no'', ''nope'']
     @ (if words (gui_profile g) ''no'' \<noteq> None then get_aliases (gui_profile g) ''no'' else [])"

definition confirm_threshold :: rat where
  "confirm_threshold = 75 / 100"

text \<open>\<open>_handle_voice_text\<close> of the graphical front end, from its start to the end of
  its branch for the mode \<open>confirm_clear\<close>. The branches of the other modes are not
  embedded: \<open>None\<close> is returned for them.\<close>

definition gui_handle_voice_text ::
  "(string \<Rightarrow> string \<Rightarrow> rat) \<Rightarrow> string \<Rightarrow> gui \<Rightarrow> gui option" where
  "gui_handle_voice_text r text g =
     (let raw_orig = py_strip text in
      if raw_orig = [] then Some g
      else
        (let raw_tokens = drop_fillers (py_split raw_orig) in
         if raw_tokens = [] then Some g
         else
           (let lower_tokens = map py_lower raw_tokens;
                raw = py_join '' '' raw_tokens;
                lower = py_join '' '' (map punct_strip lower_tokens);
                g = append_console (''[VOICE] Heard: '' @ raw @ [LF]) g
            in
              if voice_mode g = ''confirm_clear''
              then
                (let tokens = py_split lower;
                     yes_targets = gui_yes_targets g;
                     no_targets = gui_no_targets g
                 in
                   if list_ex (\<lambda>t. fuzzy r t yes_targets confirm_threshold) tokens
                   then Some (finish_clear True
                                (append_console (''[VOICE] Clear confirmed by voice.'' @ [LF]) g))
                   else if list_ex (\<lambda>t. fuzzy r t no_targets confirm_threshold) tokens
                   then Some (finish_clear False
                                (append_console (''[VOICE] Clear cancelled by voice.'' @ [LF]) g))
                   else Some g)
              else None)))"

section \<open>The similarity ratio of the standard library\<close>

text \<open>
  \<open>difflib.SequenceMatcher(None, a, b).ratio()\<close> of the Python standard library, for
  sequences of fewer than 200 elements (where its automatic junk heuristic is off): the
  longest matching block is the longest common run, the earliest in \<open>a\<close> and then the
  earliest in \<open>b\<close> among the longest; the blocks to its left and to its right are
  matched in the same way; the ratio is twice the total length of the blocks over the
  sum of both lengths, and 1 for two empty sequences. The theorems below hold for every
  ratio function; this one serves the example states.
\<close>

fun common_prefix_len :: "'a list \<Rightarrow> 'a list \<Rightarrow> nat" where
  "common_prefix_len (x # xs) (y # ys) = (if x = y then Suc (common_prefix_len xs ys) else 0)"
| "common_prefix_len xs ys = 0"

definition find_longest_match :: "'a list \<Rightarrow> 'a list \<Rightarrow> nat \<times> nat \<times> nat" where
  "find_longest_match a b =
     fold (\<lambda>i best.
            fold (\<lambda>j (besti, bestj, bestsize).
                   let k = common_prefix_len (drop i a) (drop j b)
                   in if k > bestsize then (i, j, k) else (besti, bestj, bestsize))
              [0 ..< length b] best)
       [0 ..< length a] (0, 0, 0)"

text \<open>The total length of the matching blocks. A block of positive length starts
  inside \<open>a\<close>, so the second test of the guard never holds (lemma
  \<open>find_longest_match_inside\<close>); it lets the recursion be seen to end.\<close>

function matching_size :: "'a list \<Rightarrow> 'a list \<Rightarrow> nat" where
  "matching_size a b =
     (case find_longest_match a b of
        (i, j, k) \<Rightarrow>
          if k = 0 \<or> length a \<le> i then 0
          else k + matching_size (take i a) (take j b)
                 + matching_size (drop (i + k) a) (drop (j + k) b))"
  by pat_completeness auto
termination
  by (relation "measure (\<lambda>(a, b). length a)") auto

declare matching_size.simps [simp del]

definition seq_ratio :: "string \<Rightarrow> string \<Rightarrow> rat" where
  "seq_ratio a b =
     (if length a + length b = 0 then 1
      else 2 * of_nat (matching_size a b) / of_nat (length a + length b))"

section \<open>Example states\<close>

text \<open>The state \<open>__init__\<close> leaves behind when started without arguments, without a
  settings or profile file and without the optional libraries: the defaults of the
  source, colour switched off for want of colorama, and the two notices of
  \<open>_init_tts\<close> and \<open>_init_stt\<close> in the buffer.\<close>

definition default_session :: session where
  "default_session =
     \<lparr> assistant_name = ''Alice'',
       guided_mode = True,
       current_model = ''gpt-5'',
       current_reasoning = ''medium'',
       debug_enabled = True,
       save_recordings = True,
       save_prompts = True,
       use_color = False,
       tts_speed = 6 / 5,
       buffer_mode = ''session'',
       buffer_anchor_index = 0,
       buffer_last_action_index = 0,
       voice_index = 1,
       logger_enable_debug = True,
       logger_enable_session_log = True,
       profile_data = Map.empty,
       terminal_buffer =
         [''[VOICE] Coqui TTS not installed; text-to-speech disabled.'',
          ''[VOICE] Vosk / sounddevice not available; voice disabled.''],
       prompt_text = [],
       pending_shell_command = None,
       pending_shell_explanation = None,
       last_codex_prompt = None,
       last_codex_response = None,
       prompt_capture = False,
       confirm_mode = None,
       exit_requested = False,
       listening = False,
       vosk_loaded = False,
       tts_loaded = False,
       tts_speakers = [],
       spoken = [],
       settings_file = None,
       profile_file = None,
       shell_runs = [],
       proc_calls = 0,
       stdin = [] \<rparr>"


text \<open>Collaborators for the example runs: the ratio of the standard library; numbers
  written with digits only; a code-generation tool that answers every prompt with a
  command line and an explanation line; an operating system whose commands print one
  line; none of the optional libraries.\<close>

definition parse_digits :: "string \<Rightarrow> nat option" where
  "parse_digits t =
     (if t \<noteq> [] \<and> list_all (\<lambda>c. c \<in> set digit_chars) t
      then Some (fold (\<lambda>c n. 10 * n + index_of c digit_chars) t 0)
      else None)"

definition two_decimals :: "rat \<Rightarrow> string" where
  "two_decimals q =
     (let n = nat \<lfloor>q * 100 + 1 / 2\<rfloor>
      in str_nat (n div 100) @ ''.'' @ str_nat (n mod 100 div 10) @ str_nat (n mod 10))"

definition example_env :: env where
  "example_env =
     \<lparr> ratio = seq_ratio,
       parse_float = (\<lambda>t. map_option of_nat (parse_digits t)),
       parse_int = (\<lambda>t. map_option int (parse_digits t)),
       fmt_2f = two_decimals,
       run_codex = (\<lambda>n cmd. Codex_Done 0 (''CMD: ls -la'' @ [LF] @ ''EXPL: list files'') []),
       run_shell = (\<lambda>n command. Shell_Done (''done'' @ [LF]) []),
       colorama_available = False,
       sounddevice_available = False,
       vosk_available = False,
       vosk_model_path = ''vosk-model-small-en-us-0.15'',
       vosk_model_exists = False,
       vosk_load_error = None,
       settings_writable = True,
       profile_writable = True \<rparr>"

text \<open>The same collaborators with a tool that answers with an empty command line.\<close>

definition mute_env :: env where
  "mute_env = example_env\<lparr>run_codex := (\<lambda>n cmd. Codex_Done 0 ''CMD:'' [])\<rparr>"

text \<open>A start with recording switched off (the flag \<open>-norecordresponsespeech\<close>) and
  one typed line, \<open>v-recordings\<close>, waiting.\<close>

definition recordings_off_session :: session where
  "recordings_off_session = default_session\<lparr>save_recordings := False, stdin := [''v-recordings'']\<rparr>"

text \<open>A start with the typed line \<open>v-clear\<close> waiting.\<close>

definition clear_typed_session :: session where
  "clear_typed_session = default_session\<lparr>stdin := [''v-clear'']\<rparr>"

text \<open>A run: the prompt is typed (\<open>v-prompt\<close> and its text), then the utterances
  "alice shell command" and "alice run" are heard.\<close>

definition prompt_typed_session :: session where
  "prompt_typed_session =
     snd (run_iteration example_env (default_session\<lparr>stdin := [''v-prompt'', ''list the files'']\<rparr>))"

definition proposal_session :: session where
  "proposal_session = snd (handle_vosk_result example_env ''alice shell command'' prompt_typed_session)"

definition after_run_session :: session where
  "after_run_session = snd (handle_vosk_result example_env ''alice run'' proposal_session)"

text \<open>A run: \<open>v-buffer clear\<close> is typed, then \<open>v-clear\<close>.\<close>

definition anchored_session :: session where
  "anchored_session =
     snd (run_iteration example_env (default_session\<lparr>stdin := [''v-buffer clear'', ''v-clear'']\<rparr>))"

definition cleared_session :: session where
  "cleared_session = snd (run_iteration example_env anchored_session)"

text \<open>A session with a synthesiser in which "alice exit" has been heard, so that the
  exit confirmation is pending.\<close>

definition exit_pending_session :: session where
  "exit_pending_session =
     snd (handle_vosk_result example_env ''alice exit'' (default_session\<lparr>tts_loaded := True\<rparr>))"

text \<open>A pending proposal and the request for another one, answered by the mute tool.\<close>

definition stale_proposal_session :: session where
  "stale_proposal_session =
     default_session\<lparr>pending_shell_command := Some ''rm -rf build'',
                      pending_shell_explanation := Some ''remove the build directory''\<rparr>"

section \<open>Properties of the history window\<close>












section \<open>What the voice commands keep\<close>

lemmas inv_defs = session_inv_def indices_in_buffer_def confirm_armed_def explanation_has_command_def

lemma print_status_id [simp]: "print_status s = s"
  by (simp add: print_status_def)

lemma kept_refl [simp]: "kept s s"
  by (simp add: kept_def)

lemma keptD:
  assumes "kept s t"
  shows "prefix (terminal_buffer s) (terminal_buffer t)"
    and "buffer_anchor_index t = buffer_anchor_index s
        \<or> (int (length (terminal_buffer s)) \<le> buffer_anchor_index t
           \<and> buffer_anchor_index t \<le> int (length (terminal_buffer t)))"
    and "buffer_last_action_index t = buffer_last_action_index s
        \<or> (int (length (terminal_buffer s)) \<le> buffer_last_action_index t
           \<and> buffer_last_action_index t \<le> int (length (terminal_buffer t)))"
    and "confirm_mode t = confirm_mode s \<or> confirm_armed t"
    and "explanation_has_command s \<longrightarrow> explanation_has_command t"
    and "exit_requested t = exit_requested s"
    and "save_recordings t = save_recordings s"
    and "save_prompts t = save_prompts s"
    and "logger_enable_session_log t = logger_enable_session_log s"
    and "settings_file t = settings_file s"
    and "shell_runs t = shell_runs s"
    and "stdin t = stdin s"
  using assms by (simp_all add: kept_def)

lemma kept_trans:
  assumes st: "kept s t" and tu: "kept t u"
  shows "kept s u"
proof -
  note A = keptD [OF st] and B = keptD [OF tu]
  have p: "prefix (terminal_buffer s) (terminal_buffer u)"
    using A(1) B(1) by (rule prefix_order.trans)
  have l1: "length (terminal_buffer s) \<le> length (terminal_buffer t)"
    using A(1) by (rule prefix_length_le)
  have l2: "length (terminal_buffer t) \<le> length (terminal_buffer u)"
    using B(1) by (rule prefix_length_le)
  have a: "buffer_anchor_index u = buffer_anchor_index s
        \<or> (int (length (terminal_buffer s)) \<le> buffer_anchor_index u
           \<and> buffer_anchor_index u \<le> int (length (terminal_buffer u)))"
    using A(2) B(2) l1 l2 by linarith
  have b: "buffer_last_action_index u = buffer_last_action_index s
        \<or> (int (length (terminal_buffer s)) \<le> buffer_last_action_index u
           \<and> buffer_last_action_index u \<le> int (length (terminal_buffer u)))"
    using A(3) B(3) l1 l2 by linarith
  have c: "confirm_mode u = confirm_mode s \<or> confirm_armed u"
    using A(4) B(4) by (auto simp: confirm_armed_def)
  have d: "explanation_has_command s \<longrightarrow> explanation_has_command u"
    using A(5) B(5) by blast
  show ?thesis
    unfolding kept_def
    using p a b c d A(6-12) B(6-12) by simp
qed

lemma kept_step: "kept s0 s \<Longrightarrow> kept s s' \<Longrightarrow> kept s0 s'"
  by (rule kept_trans)

lemma kept_print_buf0: "kept s (print_buf t s)"
  by (simp add: kept_def print_buf_def explanation_has_command_def)

lemma kept_speak0: "kept s (speak t s)"
  by (simp add: kept_def speak_def Let_def explanation_has_command_def)

lemma kept_guided_speak0: "kept s (guided_speak t s)"
  by (simp add: guided_speak_def kept_speak0)

lemma kept_print_all0: "kept s (print_all ts s)"
  unfolding print_all_def
proof (induction ts arbitrary: s)
  case Nil show ?case by simp
next
  case (Cons t ts)
  show ?case using kept_trans [OF kept_print_buf0 Cons.IH] by simp
qed

lemma kept_print_buf: "kept s0 s \<Longrightarrow> kept s0 (print_buf t s)"
  by (erule kept_trans) (rule kept_print_buf0)
lemma kept_speak: "kept s0 s \<Longrightarrow> kept s0 (speak t s)"
  by (erule kept_trans) (rule kept_speak0)
lemma kept_guided_speak: "kept s0 s \<Longrightarrow> kept s0 (guided_speak t s)"
  by (erule kept_trans) (rule kept_guided_speak0)
lemma kept_print_all: "kept s0 s \<Longrightarrow> kept s0 (print_all ts s)"
  by (erule kept_trans) (rule kept_print_all0)
lemma kept_print_status: "kept s0 s \<Longrightarrow> kept s0 (print_status s)"
  by simp

lemma kept_Let_state:
  "kept s0 (a::session) \<Longrightarrow> (\<And>x. kept s0 x \<Longrightarrow> kept s0 (f x)) \<Longrightarrow> kept s0 (Let a f)"
  by simp

lemma kept_Let_val: "(\<And>x. kept s0 (f x)) \<Longrightarrow> kept s0 (Let a f)"
  by simp

lemma kept_if: "(c \<Longrightarrow> kept s0 a) \<Longrightarrow> (\<not> c \<Longrightarrow> kept s0 b) \<Longrightarrow> kept s0 (if c then a else b)"
  by simp

lemma kept_case_prod: "(\<And>a b. kept s0 (f a b)) \<Longrightarrow> kept s0 (case_prod f p)"
  by (cases p) simp

lemma kept_case_option:
  "kept s0 a \<Longrightarrow> (\<And>x. kept s0 (f x)) \<Longrightarrow> kept s0 (case_option a f v)"
  by (cases v) simp_all

lemma kept_upd0:
  "kept s (s\<lparr>guided_mode := b\<rparr>)"
  "kept s (s\<lparr>prompt_capture := b\<rparr>)"
  "kept s (s\<lparr>prompt_text := t\<rparr>)"
  "kept s (s\<lparr>current_model := t\<rparr>)"
  "kept s (s\<lparr>current_reasoning := t\<rparr>)"
  "kept s (s\<lparr>use_color := b\<rparr>)"
  "kept s (s\<lparr>tts_speed := q\<rparr>)"
  "kept s (s\<lparr>debug_enabled := b, logger_enable_debug := b'\<rparr>)"
  "kept s (s\<lparr>listening := b\<rparr>)"
  "kept s (s\<lparr>vosk_loaded := b\<rparr>)"
  "kept s (s\<lparr>assistant_name := t\<rparr>)"
  "kept s (s\<lparr>last_codex_prompt := v\<rparr>)"
  "kept s (s\<lparr>last_codex_response := v\<rparr>)"
  "kept s (s\<lparr>proc_calls := n\<rparr>)"
  "kept s (s\<lparr>buffer_mode := t\<rparr>)"
  "kept s (s\<lparr>pending_shell_explanation := None\<rparr>)"
  "kept s (s\<lparr>pending_shell_command := None, pending_shell_explanation := None\<rparr>)"
  "kept s (s\<lparr>buffer_anchor_index := int (length (terminal_buffer s))\<rparr>)"
  "kept s (s\<lparr>buffer_last_action_index := int (length (terminal_buffer s))\<rparr>)"
  "kept s (s\<lparr>terminal_buffer := terminal_buffer s @ xs\<rparr>)"
  by (simp_all add: kept_def explanation_has_command_def confirm_armed_def)

lemmas kept_upd = kept_upd0 [THEN [2] kept_trans]

lemma kept_case_codex:
  "kept s0 a \<Longrightarrow> (\<And>x. kept s0 (f x)) \<Longrightarrow> (\<And>x y z. kept s0 (g x y z)) \<Longrightarrow>
   kept s0 (case r of Codex_Not_Found \<Rightarrow> a | Codex_Failed x \<Rightarrow> f x | Codex_Done x y z \<Rightarrow> g x y z)"
  by (cases r) simp_all

lemma kept_case_shell:
  "(\<And>x. kept s0 (f x)) \<Longrightarrow> (\<And>x y. kept s0 (g x y)) \<Longrightarrow>
   kept s0 (case r of Shell_Failed x \<Rightarrow> f x | Shell_Done x y \<Rightarrow> g x y)"
  by (cases r) simp_all

lemma kept_confirm0:
  "kept s (s\<lparr>confirm_mode := Some ''exec''\<rparr>)"
  "kept s (s\<lparr>confirm_mode := Some ''exit''\<rparr>)"
  "kept s (s\<lparr>confirm_mode := Some ''save_recordings''\<rparr>)"
  "kept s (s\<lparr>confirm_mode := Some ''save_prompts''\<rparr>)"
  "kept s (s\<lparr>confirm_mode := Some ''save_settings''\<rparr>)"
  "kept s (s\<lparr>confirm_mode := None\<rparr>)"
  by (simp_all add: kept_def explanation_has_command_def confirm_armed_def armed_reasons_def)

lemmas kept_confirm = kept_confirm0 [THEN [2] kept_trans]

lemma kept_pending0:
  "truthy c \<Longrightarrow> kept s (s\<lparr>pending_shell_command := c, pending_shell_explanation := v\<rparr>)"
  by (cases c) (simp_all add: kept_def explanation_has_command_def confirm_armed_def truthy_def)

lemma kept_pending:
  "truthy c \<Longrightarrow> kept s0 s \<Longrightarrow>
   kept s0 (s\<lparr>pending_shell_command := c, pending_shell_explanation := v\<rparr>)"
  by (erule kept_trans [OF _ kept_pending0])

lemma kept_profile0:
  "kept s (profile_add_aliases k ws s)"
  "kept s (profile_save e s)"
  by (simp_all add: kept_def explanation_has_command_def confirm_armed_def
        profile_add_aliases_def profile_save_def Let_def)

lemmas kept_profile = kept_profile0 [THEN [2] kept_trans]

lemmas kept_rules =
  kept_Let_state kept_Let_val kept_if kept_case_prod kept_case_option kept_case_codex
  kept_print_buf kept_speak kept_guided_speak kept_print_all kept_print_status kept_upd
  kept_confirm kept_pending kept_profile kept_refl

lemma kept_print_settings: "kept s0 s \<Longrightarrow> kept s0 (print_settings e s)"
  unfolding print_settings_def by (intro kept_rules)

lemma kept_run_codex_prompt: "kept s0 s \<Longrightarrow> kept s0 (run_codex_prompt e p s)"
  unfolding run_codex_prompt_def by (intro kept_rules)

lemma kept_voice_shell_request: "kept s0 s \<Longrightarrow> kept s0 (voice_shell_request e s)"
  unfolding voice_shell_request_def by (intro kept_rules kept_run_codex_prompt)

lemma kept_voice_app_command_request: "kept s0 s \<Longrightarrow> kept s0 (voice_app_command_request e s)"
  unfolding voice_app_command_request_def by (intro kept_rules kept_run_codex_prompt)

lemma kept_init_stt: "kept s0 s \<Longrightarrow> kept s0 (init_stt e s)"
  unfolding init_stt_def by (intro kept_rules)

lemma kept_wake_mode: "kept s0 s \<Longrightarrow> kept s0 (wake_mode e tokens s)"
  unfolding wake_mode_def by (intro kept_rules)

lemma kept_wake_settings: "kept s0 s \<Longrightarrow> kept s0 (wake_settings e s)"
  unfolding wake_settings_def by (intro kept_rules kept_print_settings)

lemma kept_wake_prompt: "kept s0 s \<Longrightarrow> kept s0 (wake_prompt s)"
  unfolding wake_prompt_def by (intro kept_rules)

lemma kept_wake_done: "kept s0 s \<Longrightarrow> kept s0 (wake_done s)"
  unfolding wake_done_def by (intro kept_rules)

lemma kept_wake_reasoning: "kept s0 s \<Longrightarrow> kept s0 (wake_reasoning e tokens s)"
  unfolding wake_reasoning_def by (intro kept_rules)

lemma kept_set_model_voice: "kept s0 s \<Longrightarrow> kept s0 (set_model_voice m s)"
  unfolding set_model_voice_def by (intro kept_rules)

lemma kept_handle_model_voice: "kept s0 s \<Longrightarrow> kept s0 (handle_model_voice tail s)"
  unfolding handle_model_voice_def by (intro kept_rules kept_set_model_voice)

lemma kept_wake_model: "kept s0 s \<Longrightarrow> kept s0 (wake_model tokens s)"
  unfolding wake_model_def by (intro kept_rules kept_handle_model_voice)

lemma kept_wake_buffer: "kept s0 s \<Longrightarrow> kept s0 (wake_buffer tokens s)"
  unfolding wake_buffer_def by (intro kept_rules)

lemma kept_wake_history: "kept s0 s \<Longrightarrow> kept s0 (wake_history s)"
  unfolding wake_history_def by (intro kept_rules)

lemma kept_wake_shell_command: "kept s0 s \<Longrightarrow> kept s0 (wake_shell_command e s)"
  unfolding wake_shell_command_def by (intro kept_rules kept_voice_shell_request)

lemma kept_wake_voice_command: "kept s0 s \<Longrightarrow> kept s0 (wake_voice_command e s)"
  unfolding wake_voice_command_def by (intro kept_rules kept_voice_app_command_request)

lemma kept_wake_voice_shell: "kept s0 s \<Longrightarrow> kept s0 (wake_voice_shell e s)"
  unfolding wake_voice_shell_def by (intro kept_rules kept_voice_shell_request)

lemma kept_wake_execute: "kept s0 s \<Longrightarrow> kept s0 (wake_execute s)"
  unfolding wake_execute_def by (intro kept_rules)

lemma kept_wake_repeat: "kept s0 s \<Longrightarrow> kept s0 (wake_repeat s)"
  unfolding wake_repeat_def by (intro kept_rules)

lemma kept_wake_respond: "kept s0 s \<Longrightarrow> kept s0 (wake_respond s)"
  unfolding wake_respond_def by (intro kept_rules)

lemma kept_speak_help: "kept s0 s \<Longrightarrow> kept s0 (speak_help s)"
  unfolding speak_help_def by (intro kept_rules)

lemma kept_wake_exit: "kept s0 s \<Longrightarrow> kept s0 (wake_exit s)"
  unfolding wake_exit_def by (intro kept_rules)

lemma kept_wake_stop_listening: "kept s0 s \<Longrightarrow> kept s0 (wake_stop_listening s)"
  unfolding wake_stop_listening_def by (intro kept_rules)

lemma kept_wake_listen: "kept s0 s \<Longrightarrow> kept s0 (wake_listen e s)"
  unfolding wake_listen_def by (intro kept_rules kept_init_stt)

lemma kept_announce_speed: "kept s0 s \<Longrightarrow> kept s0 (announce_speed e s)"
  unfolding announce_speed_def by (intro kept_rules)

lemma kept_wake_speed: "kept s0 s \<Longrightarrow> kept s0 (wake_speed e tokens s)"
  unfolding wake_speed_def by (intro kept_rules kept_announce_speed)

lemma kept_wake_color: "kept s0 s \<Longrightarrow> kept s0 (wake_color e tokens s)"
  unfolding wake_color_def by (intro kept_rules)

lemma kept_wake_debug: "kept s0 s \<Longrightarrow> kept s0 (wake_debug tokens s)"
  unfolding wake_debug_def by (intro kept_rules)

lemma kept_wake_save_recordings: "kept s0 s \<Longrightarrow> kept s0 (wake_save_recordings s)"
  unfolding wake_save_recordings_def by (intro kept_rules)

lemma kept_wake_log: "kept s0 s \<Longrightarrow> kept s0 (wake_log s)"
  unfolding wake_log_def by (intro kept_rules)

lemma kept_wake_save: "kept s0 s \<Longrightarrow> kept s0 (wake_save s)"
  unfolding wake_save_def by (intro kept_rules)

lemma kept_wake_rename: "kept s0 s \<Longrightarrow> kept s0 (wake_rename e tokens s)"
  unfolding wake_rename_def by (intro kept_rules)

lemma kept_wake_run: "kept s0 s \<Longrightarrow> kept s0 (wake_run e s)"
  unfolding wake_run_def by (intro kept_rules kept_run_codex_prompt)

lemma kept_wake_unknown: "kept s0 s \<Longrightarrow> kept s0 (wake_unknown cmd s)"
  unfolding wake_unknown_def by (intro kept_rules)

lemmas kept_wake =
  kept_wake_mode kept_wake_settings kept_wake_prompt kept_wake_done kept_wake_reasoning
  kept_wake_model kept_wake_buffer kept_wake_history kept_wake_shell_command
  kept_wake_voice_command kept_wake_voice_shell kept_wake_execute kept_wake_repeat
  kept_wake_respond kept_speak_help kept_wake_exit kept_wake_stop_listening kept_wake_listen
  kept_wake_speed kept_wake_color kept_wake_debug kept_wake_save_recordings kept_wake_log
  kept_wake_save kept_wake_rename kept_wake_run kept_wake_unknown

lemma kept_wake_dispatch:
  assumes st: "\<And>m x. kept s0 x \<Longrightarrow> kept s0 (self_test e m x)"
    and s: "kept s0 s"
  shows "kept s0 (wake_dispatch self_test e tokens s)"
  unfolding wake_dispatch_def using s by (intro kept_rules kept_wake st)

lemma kept_handle_wake_command_plain:
  "kept s0 s \<Longrightarrow> kept s0 (handle_wake_command_plain e tokens s)"
  unfolding handle_wake_command_plain_def by (rule kept_wake_dispatch)

lemma kept_run_self_test_with:
  assumes h: "\<And>t x. kept s0 x \<Longrightarrow> kept s0 (handle e t x)"
    and s: "kept s0 s"
  shows "kept s0 (run_self_test_with handle e mode s)"
  unfolding run_self_test_with_def using s by (intro kept_rules kept_voice_shell_request h)

lemma kept_run_self_test: "kept s0 s \<Longrightarrow> kept s0 (run_self_test e mode s)"
  unfolding run_self_test_def
  by (rule kept_run_self_test_with) (rule kept_handle_wake_command_plain)

lemma kept_handle_wake_command: "kept s0 s \<Longrightarrow> kept s0 (handle_wake_command e tokens s)"
  unfolding handle_wake_command_def
  by (rule kept_wake_dispatch) (rule kept_run_self_test)

lemma kept_inv:
  assumes k: "kept s s'" and i: "session_inv s"
  shows "session_inv s'"
proof -
  note A = keptD [OF k]
  have l: "length (terminal_buffer s) \<le> length (terminal_buffer s')"
    using A(1) by (rule prefix_length_le)
  have a: "0 \<le> buffer_anchor_index s' \<and> buffer_anchor_index s' \<le> int (length (terminal_buffer s'))"
    using A(2) l i unfolding session_inv_def indices_in_buffer_def by linarith
  have b: "0 \<le> buffer_last_action_index s'
           \<and> buffer_last_action_index s' \<le> int (length (terminal_buffer s'))"
    using A(3) l i unfolding session_inv_def indices_in_buffer_def by linarith
  have c: "confirm_armed s'"
    using A(4) i unfolding session_inv_def confirm_armed_def by auto
  have d: "explanation_has_command s'"
    using A(5) i unfolding session_inv_def by blast
  show ?thesis unfolding session_inv_def indices_in_buffer_def using a b c d by blast
qed

lemma inv_kept: "session_inv s \<Longrightarrow> kept s s' \<Longrightarrow> session_inv s'"
  by (rule kept_inv)

lemma inv_prims:
  assumes "session_inv s"
  shows "session_inv (print_buf t s)"
    and "session_inv (speak t s)"
    and "session_inv (guided_speak t s)"
    and "session_inv (print_all ts s)"
    and "session_inv (print_status s)"
    and "session_inv (print_settings e s)"
    and "session_inv (print_banner e s)"
    and "session_inv (init_stt e s)"
    and "session_inv (voice_shell_request e s)"
    and "session_inv (voice_app_command_request e s)"
    and "session_inv (handle_wake_command e tokens s)"
    and "session_inv (profile_add_aliases k ws s)"
    and "session_inv (profile_save e s)"
  using assms
  by (auto elim!: inv_kept
        intro: kept_print_buf0 kept_speak0 kept_guided_speak0 kept_print_all0
          kept_print_settings kept_init_stt kept_voice_shell_request
          kept_voice_app_command_request kept_handle_wake_command kept_profile0
        simp: print_banner_def)

lemma inv_upd:
  assumes "session_inv s"
  shows "session_inv (s\<lparr>guided_mode := b\<rparr>)"
    and "session_inv (s\<lparr>debug_enabled := b\<rparr>)"
    and "session_inv (s\<lparr>logger_enable_debug := b\<rparr>)"
    and "session_inv (s\<lparr>save_prompts := b\<rparr>)"
    and "session_inv (s\<lparr>save_prompts := b, logger_enable_session_log := b'\<rparr>)"
    and "session_inv (s\<lparr>logger_enable_session_log := b\<rparr>)"
    and "session_inv (s\<lparr>save_recordings := b\<rparr>)"
    and "session_inv (s\<lparr>voice_index := i\<rparr>)"
    and "session_inv (s\<lparr>assistant_name := t\<rparr>)"
    and "session_inv (s\<lparr>current_model := t\<rparr>)"
    and "session_inv (s\<lparr>current_reasoning := t\<rparr>)"
    and "session_inv (s\<lparr>prompt_capture := b\<rparr>)"
    and "session_inv (s\<lparr>prompt_text := t\<rparr>)"
    and "session_inv (s\<lparr>stdin := ls\<rparr>)"
    and "session_inv (s\<lparr>use_color := b\<rparr>)"
    and "session_inv (s\<lparr>tts_speed := q\<rparr>)"
    and "session_inv (s\<lparr>buffer_mode := t\<rparr>)"
    and "session_inv (s\<lparr>exit_requested := b\<rparr>)"
    and "session_inv (s\<lparr>exit_requested := b, listening := b'\<rparr>)"
    and "session_inv (s\<lparr>listening := b\<rparr>)"
    and "session_inv (s\<lparr>shell_runs := ls\<rparr>)"
    and "session_inv (s\<lparr>proc_calls := n, shell_runs := ls\<rparr>)"
    and "session_inv (s\<lparr>settings_file := sf\<rparr>)"
    and "session_inv (s\<lparr>confirm_mode := None\<rparr>)"
    and "session_inv (s\<lparr>pending_shell_command := None, pending_shell_explanation := None\<rparr>)"
    and "session_inv (s\<lparr>buffer_anchor_index := int (length (terminal_buffer s))\<rparr>)"
    and "session_inv (s\<lparr>buffer_last_action_index := int (length (terminal_buffer s))\<rparr>)"
  using assms by (simp_all add: inv_defs)

lemma inv_Let_state:
  "session_inv (a::session) \<Longrightarrow> (\<And>x. session_inv x \<Longrightarrow> session_inv (f x)) \<Longrightarrow>
   session_inv (Let a f)"
  by simp

lemma inv_Let_val: "(\<And>x. session_inv (f x)) \<Longrightarrow> session_inv (Let a f)"
  by simp

lemma inv_if:
  "(c \<Longrightarrow> session_inv a) \<Longrightarrow> (\<not> c \<Longrightarrow> session_inv b) \<Longrightarrow> session_inv (if c then a else b)"
  by simp

lemma inv_case_option:
  "session_inv a \<Longrightarrow> (\<And>x. session_inv (f x)) \<Longrightarrow> session_inv (case_option a f v)"
  by (cases v) simp_all

lemma inv_case_shell:
  "(\<And>x. session_inv (f x)) \<Longrightarrow> (\<And>x y. session_inv (g x y)) \<Longrightarrow>
   session_inv (case r of Shell_Failed x \<Rightarrow> f x | Shell_Done x y \<Rightarrow> g x y)"
  by (cases r) simp_all

lemma inv_read_input:
  "session_inv s \<Longrightarrow> (\<And>a x. session_inv x \<Longrightarrow> session_inv (f a x)) \<Longrightarrow>
   session_inv (Let (read_input s) (case_prod f))"
  by (auto simp: read_input_def inv_upd split: list.splits)

lemmas inv_rules =
  inv_read_input inv_Let_state inv_Let_val inv_if inv_case_option inv_case_shell
  inv_prims inv_upd

lemma inv_save_settings: "session_inv s \<Longrightarrow> session_inv (save_settings e s)"
  unfolding save_settings_def by (intro inv_rules)

lemma inv_run_shell_command: "session_inv s \<Longrightarrow> session_inv (run_shell_command e c s)"
  unfolding run_shell_command_def by (intro inv_rules)

lemma inv_typed_clear: "session_inv s \<Longrightarrow> session_inv (typed_clear s)"
  by (simp add: typed_clear_def Let_def print_buf_def inv_defs)

lemma inv_typed_simple:
  assumes "session_inv s"
  shows "session_inv (typed_guided b s)"
    and "session_inv (typed_debug s)"
    and "session_inv (typed_saveprompts b s)"
    and "session_inv (typed_recordspeech b s)"
    and "session_inv (typed_recordings s)"
    and "session_inv (typed_logprompts s)"
    and "session_inv (typed_voice e parts s)"
    and "session_inv (typed_rename e parts s)"
    and "session_inv (typed_model parts s)"
    and "session_inv (typed_reasoning parts s)"
    and "session_inv (typed_prompt s)"
    and "session_inv (typed_repeat s)"
    and "session_inv (typed_respond s)"
    and "session_inv (typed_fancy_on e s)"
    and "session_inv (typed_fancy_off s)"
    and "session_inv (typed_speed e parts s)"
    and "session_inv (typed_buffer parts s)"
  unfolding typed_guided_def typed_debug_def typed_saveprompts_def typed_recordspeech_def
    typed_recordings_def typed_logprompts_def typed_voice_def typed_rename_def typed_model_def
    typed_reasoning_def typed_prompt_def typed_repeat_def typed_respond_def typed_fancy_on_def
    typed_fancy_off_def typed_speed_def typed_buffer_def
  by (insert assms) (intro inv_rules | assumption)+

lemma sinv_pair: "session_inv s \<Longrightarrow> session_inv (snd (b, s))"
  by simp

lemma sinv_if:
  "(c \<Longrightarrow> session_inv (snd a)) \<Longrightarrow> (\<not> c \<Longrightarrow> session_inv (snd b)) \<Longrightarrow>
   session_inv (snd (if c then a else b))"
  by simp

lemma sinv_Let_state:
  "session_inv (a::session) \<Longrightarrow> (\<And>x. session_inv x \<Longrightarrow> session_inv (snd (f x))) \<Longrightarrow>
   session_inv (snd (Let a f))"
  by simp

lemma sinv_Let_pair:
  "session_inv (snd p) \<Longrightarrow> (\<And>a x. session_inv x \<Longrightarrow> session_inv (snd (f a x))) \<Longrightarrow>
   session_inv (snd (Let p (case_prod f)))"
  by (cases p) simp

lemma sinv_Let_val: "(\<And>x. session_inv (snd (f x))) \<Longrightarrow> session_inv (snd (Let a f))"
  by simp

lemma sinv_case_option:
  "session_inv (snd a) \<Longrightarrow> (\<And>x. session_inv (snd (f x))) \<Longrightarrow>
   session_inv (snd (case_option a f v))"
  by (cases v) simp_all

lemma sinv_read_input: "session_inv s \<Longrightarrow> session_inv (snd (read_input s))"
  by (auto simp: read_input_def inv_upd split: list.splits)

lemmas sinv_rules =
  sinv_pair sinv_if sinv_Let_pair sinv_Let_state sinv_Let_val sinv_case_option sinv_read_input

lemma inv_typed_save: "session_inv s \<Longrightarrow> session_inv (snd (typed_save e s))"
  unfolding typed_save_def by (intro sinv_rules inv_rules inv_save_settings)

lemma inv_typed_exit: "session_inv s \<Longrightarrow> session_inv (snd (typed_exit s))"
  unfolding typed_exit_def by (intro sinv_rules inv_rules)

lemma stdin_print_buf [simp]: "stdin (print_buf t s) = stdin s"
  by (simp add: print_buf_def)

lemma pending_print_buf [simp]:
  "pending_shell_command (print_buf t s) = pending_shell_command s"
  by (simp add: print_buf_def)

lemma assistant_print_buf [simp]: "assistant_name (print_buf t s) = assistant_name s"
  by (simp add: print_buf_def)

lemma inv_typed_nonexec:
  assumes i: "session_inv s"
    and k: "py_strip (drop 2 line) = [] \<or> py_split (py_strip (drop 2 line)) ! 0 \<noteq> ''exec''"
  shows "session_inv (snd (handle_typed_voice_command e line s))"
proof (cases "py_strip (drop 2 line) = []")
  case True
  then show ?thesis using i by (subst handle_typed_voice_command.simps) simp
next
  case False
  with k have ne: "py_split (py_strip (drop 2 line)) ! 0 \<noteq> ''exec''" by simp
  show ?thesis
    using i False ne
    by (subst handle_typed_voice_command.simps)
       (simp add: Let_def inv_prims inv_typed_simple inv_typed_clear inv_typed_save
          inv_typed_exit)
qed

lemma inv_typed:
  "session_inv s \<Longrightarrow> session_inv (snd (handle_typed_voice_command e line s))"
proof (induction "length (stdin s)" arbitrary: line s rule: less_induct)
  case less
  note i = less.prems
  show ?case
  proof (cases "py_strip (drop 2 line) = [] \<or> py_split (py_strip (drop 2 line)) ! 0 \<noteq> ''exec''")
    case True
    with i show ?thesis by (rule inv_typed_nonexec)
  next
    case False
    then have c: "py_strip (drop 2 line) \<noteq> []"
      and k: "py_split (py_strip (drop 2 line)) ! 0 = ''exec''" by simp_all
    show ?thesis
    proof (cases "truthy (pending_shell_command s)")
      case False
      then show ?thesis
        using i c k by (subst handle_typed_voice_command.simps) (simp add: Let_def inv_prims)
    next
      case pend: True
      show ?thesis
      proof (cases "stdin s")
        case Nil
        then show ?thesis
          using i c k pend
          by (subst handle_typed_voice_command.simps) (simp add: Let_def inv_prims)
      next
        case (Cons ans rest)
        define s1 where
          "s1 = (print_buf (''[CONFIRM] Execute: '' @ or_empty (pending_shell_command s)
                            @ '' (y/N)? '') s)\<lparr>stdin := rest\<rparr>"
        define cr where "cr = py_strip (or_empty (pending_shell_command s1))"
        define s2 where "s2 = print_buf (''[EXEC] Running: '' @ cr) s1"
        have i1: "session_inv s1"
          unfolding s1_def using i by (intro inv_rules)
        have i2: "session_inv s2"
          unfolding s2_def using i1 by (intro inv_rules)
        have len: "length (stdin s2) < length (stdin s)"
          by (simp add: s2_def s1_def Cons)
        have rec: "session_inv (snd (handle_typed_voice_command e cr s2))"
          using len i2 by (rule less.hyps)
        have wake: "session_inv (handle_wake_command e ts s2)" for ts
          using i2 by (rule inv_prims)
        have sh: "session_inv (run_shell_command e cr s2)"
          using i2 by (rule inv_run_shell_command)
        have no: "session_inv (print_buf ''[CONFIRM] Cancelled.'' s1)"
          using i1 by (rule inv_prims)
        have fin: "session_inv x \<Longrightarrow>
            session_inv (x\<lparr>pending_shell_command := None, pending_shell_explanation := None\<rparr>)"
          for x by (rule inv_upd)
        show ?thesis
          using c k pend Cons rec wake sh no fin
          by (subst handle_typed_voice_command.simps)
             (auto simp: Let_def s1_def cr_def s2_def split: prod.splits)
      qed
    qed
  qed
qed

lemma sinv_Let_eq: "(\<And>x. x = a \<Longrightarrow> session_inv (snd (f x))) \<Longrightarrow> session_inv (snd (Let a f))"
  by simp

lemma sinv_case_list:
  "session_inv (snd a) \<Longrightarrow> (\<And>x xs. l = x # xs \<Longrightarrow> session_inv (snd (f x xs))) \<Longrightarrow>
   session_inv (snd (case_list a f l))"
  by (cases l) simp_all

lemmas sinv_rules2 =
  sinv_pair sinv_if sinv_Let_pair sinv_Let_state sinv_Let_eq sinv_case_option sinv_case_list
  sinv_read_input

lemma inv_clear_screen_and_buffer: "session_inv s \<Longrightarrow> session_inv (clear_screen_and_buffer s)"
  by (simp add: clear_screen_and_buffer_def Let_def print_buf_def inv_defs)

lemma not_clear: "session_inv s \<Longrightarrow> confirm_mode s \<noteq> Some ''clear''"
  by (auto simp: inv_defs armed_reasons_def)

lemma inv_apply_confirm_decision:
  "session_inv s \<Longrightarrow> session_inv (snd (apply_confirm_decision e accepted s))"
  unfolding apply_confirm_decision_def
  by (intro sinv_rules2 inv_rules inv_typed inv_run_shell_command inv_save_settings;
      (assumption | (frule not_clear, simp)))

lemma inv_handle_confirm_voice:
  "session_inv s \<Longrightarrow> session_inv (snd (handle_confirm_voice e tokens s))"
  unfolding handle_confirm_voice_def
  by (intro sinv_rules2 inv_rules inv_apply_confirm_decision; assumption)

lemma inv_handle_voice_text:
  "session_inv s \<Longrightarrow> session_inv (snd (handle_voice_text e text s))"
  unfolding handle_voice_text_def
  by (intro sinv_rules2 inv_rules inv_handle_confirm_voice; assumption)

lemma inv_handle_vosk_result:
  "session_inv s \<Longrightarrow> session_inv (snd (handle_vosk_result e text s))"
  unfolding handle_vosk_result_def
  by (intro sinv_rules2 inv_rules inv_handle_voice_text; assumption)

lemma inv_run_iteration:
  "session_inv s \<Longrightarrow> session_inv (snd (run_iteration e s))"
  unfolding run_iteration_def
  by (intro sinv_rules2 inv_rules inv_apply_confirm_decision inv_typed inv_run_shell_command
        inv_clear_screen_and_buffer; assumption)

lemma inv_initial: "initial s \<Longrightarrow> session_inv s"
  by (simp add: initial_def inv_defs)

lemma reachable_inv: "reachable e s \<Longrightarrow> session_inv s"
proof (induction rule: reachable.induct)
  case (reach_init s)
  then show ?case by (rule inv_initial)
next
  case (reach_voice s recognised)
  then show ?case by (intro inv_handle_vosk_result)
next
  case (reach_typed s)
  then show ?case by (intro inv_run_iteration)
qed

lemma apply_confirm_decision_decline:
  "apply_confirm_decision e False s =
     (False,
      if truthy (confirm_mode s)
      then guided_speak ''Cancelled.'' (print_buf ''[CONFIRM] Cancelled.'' (s\<lparr>confirm_mode := None\<rparr>))
      else s\<lparr>confirm_mode := None\<rparr>)"
  by (simp add: apply_confirm_decision_def Let_def)

lemma kept_decline: "kept s (snd (apply_confirm_decision e False s))"
  unfolding apply_confirm_decision_decline snd_conv
  by (intro kept_rules)

lemma kept_confirm_voice:
  assumes "\<not> fuzzy_in e (tokens ! 0) (get_yes_variants s) default_threshold"
  shows "kept s (snd (handle_confirm_voice e tokens s))"
  using assms by (simp add: handle_confirm_voice_def Let_def kept_decline kept_guided_speak0)

lemma skept_pair: "kept s0 s \<Longrightarrow> kept s0 (snd (b, s))"
  by simp

lemma skept_if:
  "(c \<Longrightarrow> kept s0 (snd a)) \<Longrightarrow> (\<not> c \<Longrightarrow> kept s0 (snd b)) \<Longrightarrow>
   kept s0 (snd (if c then a else b))"
  by simp

lemma skept_Let_state:
  "kept s0 (a::session) \<Longrightarrow> (\<And>x. kept s0 x \<Longrightarrow> kept s0 (snd (f x))) \<Longrightarrow>
   kept s0 (snd (Let a f))"
  by simp

lemma skept_Let_eq: "(\<And>x. x = a \<Longrightarrow> kept s0 (snd (f x))) \<Longrightarrow> kept s0 (snd (Let a f))"
  by simp

lemmas skept_rules = skept_pair skept_if skept_Let_state skept_Let_eq

lemma kept_handle_voice_text:
  assumes "\<not> (truthy (confirm_mode s) \<and> tokenize text \<noteq> []
              \<and> fuzzy_in e (tokenize text ! 0) (get_yes_variants s) default_threshold)"
  shows "kept s (snd (handle_voice_text e text s))"
  unfolding handle_voice_text_def
  apply (intro skept_rules kept_rules kept_handle_wake_command kept_confirm_voice)
  apply (insert assms)
  apply simp_all
  done

section \<open>Reachable states of the line shell\<close>

lemma reachable_cleared: "reachable example_env cleared_session"
  unfolding cleared_session_def anchored_session_def
  by (intro reachable.intros) (simp add: initial_def default_session_def)

lemma reachable_after_run: "reachable example_env after_run_session"
  unfolding after_run_session_def proposal_session_def prompt_typed_session_def
  by (intro reachable.intros) (simp add: initial_def default_session_def)

lemma reachable_proposal: "reachable example_env proposal_session"
  unfolding proposal_session_def prompt_typed_session_def
  by (intro reachable.intros) (simp add: initial_def default_session_def)

lemma clear_resets_indices:
  "buffer_anchor_index (typed_clear s) = int (length (terminal_buffer (typed_clear s)))
   \<and> buffer_last_action_index (typed_clear s) = int (length (terminal_buffer (typed_clear s)))
   \<and> buffer_anchor_index (clear_screen_and_buffer s)
       = int (length (terminal_buffer (clear_screen_and_buffer s)))
   \<and> buffer_last_action_index (clear_screen_and_buffer s)
       = int (length (terminal_buffer (clear_screen_and_buffer s)))"
  by (simp add: typed_clear_def clear_screen_and_buffer_def Let_def print_buf_def)

text \<open>
  C3. In every reachable state the anchor index and the last-action index are offsets
  into the terminal buffer, between 0 and its length. The two operations that empty the
  buffer (the typed \<open>v-clear\<close> and the typed \<open>clear\<close>) leave both indices equal to the
  length of the buffer they leave behind.
\<close>

theorem indices_within_buffer:
  assumes "reachable e s"
  shows "0 \<le> buffer_anchor_index s
     \<and> buffer_anchor_index s \<le> int (length (terminal_buffer s))
     \<and> 0 \<le> buffer_last_action_index s
     \<and> buffer_last_action_index s \<le> int (length (terminal_buffer s))
     \<and> buffer_anchor_index (typed_clear s) = int (length (terminal_buffer (typed_clear s)))
     \<and> buffer_last_action_index (typed_clear s) = int (length (terminal_buffer (typed_clear s)))
     \<and> buffer_anchor_index (clear_screen_and_buffer s)
         = int (length (terminal_buffer (clear_screen_and_buffer s)))
     \<and> buffer_last_action_index (clear_screen_and_buffer s)
         = int (length (terminal_buffer (clear_screen_and_buffer s)))"
  using reachable_inv [OF assms] clear_resets_indices [of s]
  by (simp add: session_inv_def indices_in_buffer_def)

lemma cleared_values:
  "buffer_anchor_index cleared_session = 1 \<and> buffer_last_action_index cleared_session = 1
   \<and> terminal_buffer cleared_session = [''[CMD] Buffer cleared.'']"
  by code_simp

theorem indices_within_buffer_witness:
  "reachable example_env cleared_session
   \<and> terminal_buffer cleared_session = [''[CMD] Buffer cleared.'']
   \<and> buffer_anchor_index cleared_session = 1
   \<and> buffer_anchor_index cleared_session \<le> int (length (terminal_buffer cleared_session))
   \<and> buffer_last_action_index cleared_session \<le> int (length (terminal_buffer cleared_session))"
  using indices_within_buffer [OF reachable_cleared] reachable_cleared cleared_values
  by simp

text \<open>
  C2, as stated, fails: after a proposal has been made, the voice command "run" clears
  the pending explanation and keeps the pending command.
\<close>

theorem pairing_counterexample:
  "reachable example_env after_run_session
   \<and> pending_shell_command after_run_session = Some ''ls -la''
   \<and> pending_shell_explanation after_run_session = None"
proof -
  have "pending_shell_command after_run_session = Some ''ls -la''
        \<and> pending_shell_explanation after_run_session = None"
    by code_simp
  with reachable_after_run show ?thesis by simp
qed

text \<open>
  C2, amended. In every reachable state a pending explanation is accompanied by a
  pending command.
\<close>

theorem explanation_needs_command:
  "reachable e s \<Longrightarrow> pending_shell_explanation s \<noteq> None \<Longrightarrow> pending_shell_command s \<noteq> None"
  using reachable_inv [of e s] by (simp add: session_inv_def explanation_has_command_def)

theorem explanation_needs_command_witness:
  "reachable example_env proposal_session
   \<and> pending_shell_explanation proposal_session \<noteq> None
   \<and> pending_shell_command proposal_session \<noteq> None"
proof -
  have e: "pending_shell_explanation proposal_session \<noteq> None" by code_simp
  from explanation_needs_command [OF reachable_proposal e] reachable_proposal e
  show ?thesis by simp
qed

end
